theory Spec2Isabelle
  imports Complex_Main "HOL-Library.Word" "HOL-Library.AList"
begin

section \<open>JavaScript strings and values\<close>

text \<open>
  A JavaScript string is a sequence of UTF-16 code units; \<open>length\<close>, \<open>startsWith\<close>,
  \<open>includes\<close>, \<open>trim\<close> and the regular expression of \<open>cleanMarkdown\<close> all work on code
  units. \<open>js\<close> turns an ASCII literal of the scripts into that representation.
\<close>

type_synonym code_unit = "16 word"
type_synonym jsstring = "code_unit list"

definition js :: "string \<Rightarrow> jsstring" where
  "js s = map of_char s"

text \<open>\<open>String.prototype.startsWith\<close> and \<open>String.prototype.includes\<close>.\<close>

definition startsWith :: "jsstring \<Rightarrow> jsstring \<Rightarrow> bool" where
  "startsWith s p = (take (length p) s = p)"

fun str_includes :: "jsstring \<Rightarrow> jsstring \<Rightarrow> bool" where
  "str_includes [] p = (p = [])"
| "str_includes (c # cs) p = (startsWith (c # cs) p \<or> str_includes cs p)"

text \<open>Decimal rendering of a non-negative integer inside a template literal.\<close>

fun decimal :: "nat \<Rightarrow> jsstring" where
  "decimal n = (if n < 10 then [of_nat (48 + n)]
                else decimal (n div 10) @ [of_nat (48 + n mod 10)])"

declare decimal.simps [simp del]

text \<open>
  What \<open>JSON.parse\<close> can return. TypeScript's \<open>Manifest\<close> annotation is erased at run
  time, so \<open>loadManifest\<close> hands \<open>main\<close> whatever value the file held. Of a number only
  its being zero is ever inspected.
\<close>

datatype json =
    JNull
  | JBool bool
  | JNum real
  | JStr jsstring
  | JArr "json list"
  | JObj "(jsstring \<times> json) list"

datatype error = TypeError | SyntaxError | IOError | FetchError | ShellError

text \<open>
  Property read \<open>v[k]\<close> on a parsed value; \<open>None\<close> is \<open>undefined\<close>. Reading a property
  of \<open>null\<close> throws. What is read here is an own property. That is what \<open>v[k]\<close> yields
  for the keys \<open>files\<close> and \<open>hash\<close>, which no built-in prototype defines, and for every
  key that contains a dot (\<open>path_key\<close> below): the members of the built-in prototypes,
  the indices of a string or an array and \<open>length\<close> are all written without one.
  Every destination path configured in the scripts ends in \<open>.md\<close>. For another key
  (\<open>constructor\<close>, \<open>0\<close>, \<open>length\<close>) \<open>v[k]\<close> can find an inherited member or an
  element; what is stated about the outcome of a lookup is stated for keys with a dot.
\<close>

fun get_prop :: "json \<Rightarrow> jsstring \<Rightarrow> error + json option" where
  "get_prop JNull k = Inl TypeError"
| "get_prop (JObj kvs) k = Inr (map_of kvs k)"
| "get_prop (JBool b) k = Inr None"
| "get_prop (JNum n) k = Inr None"
| "get_prop (JStr s) k = Inr None"
| "get_prop (JArr xs) k = Inr None"

text \<open>The expression \<open>manifest.files[key]\<close>: reading a property of \<open>undefined\<close> throws too.\<close>

definition manifest_files_at :: "json \<Rightarrow> jsstring \<Rightarrow> error + json option" where
  "manifest_files_at manifest key =
     (case get_prop manifest (js ''files'') of
        Inl e \<Rightarrow> Inl e
      | Inr None \<Rightarrow> Inl TypeError
      | Inr (Some files) \<Rightarrow> get_prop files key)"

definition path_key :: "jsstring \<Rightarrow> bool" where
  "path_key k = (0x2E \<in> set k)"

text \<open>Truthiness of \<open>oldEntry\<close>, and the comparison \<open>oldEntry.hash === hash\<close>.\<close>

fun truthy :: "json option \<Rightarrow> bool" where
  "truthy None = False"
| "truthy (Some JNull) = False"
| "truthy (Some (JBool b)) = b"
| "truthy (Some (JNum n)) = (n \<noteq> 0)"
| "truthy (Some (JStr s)) = (s \<noteq> [])"
| "truthy (Some (JArr xs)) = True"
| "truthy (Some (JObj kvs)) = True"

definition hash_equals :: "json option \<Rightarrow> jsstring \<Rightarrow> bool" where
  "hash_equals oldEntry h =
     (case oldEntry of
        None \<Rightarrow> False
      | Some e \<Rightarrow> (case get_prop e (js ''hash'') of
                     Inr (Some (JStr x)) \<Rightarrow> x = h
                   | _ \<Rightarrow> False))"

text \<open>
  Assignment \<open>obj[k] = v\<close> on an object literal under construction: an existing key keeps
  its place, a new key goes last. (Only for the key \<open>__proto__\<close>, which has no dot, does
  an assignment do something else.)
\<close>

definition assign :: "(jsstring \<times> json) list \<Rightarrow> jsstring \<Rightarrow> json \<Rightarrow> (jsstring \<times> json) list" where
  "assign obj k v = AList.update k v obj"


section \<open>The environment of a run\<close>

text \<open>
  Everything the scripts obtain from outside is a field of \<open>world\<close>: the remote origin
  (\<open>http\<close>), the library functions they call (\<open>path.join\<close>, \<open>path.dirname\<close>, SHA-256,
  \<open>JSON.parse\<close>, \<open>JSON.stringify\<close>), the clock (\<open>toISOString w k\<close> is the \<open>k\<close>-th reading
  of \<open>new Date().toISOString()\<close> in the run) and which file-system calls fail.
\<close>

datatype response =
    NetworkFailure
  | Response nat "jsstring option"

record world =
  RESOURCES_DIR :: jsstring
  path_join :: "jsstring \<Rightarrow> jsstring \<Rightarrow> jsstring"
  path_dirname :: "jsstring \<Rightarrow> jsstring"
  http :: "jsstring \<Rightarrow> response"
  sha256_hex :: "jsstring \<Rightarrow> jsstring"
  JSON_parse :: "jsstring \<Rightarrow> json option"
  JSON_stringify :: "json \<Rightarrow> jsstring"
  toISOString :: "nat \<Rightarrow> jsstring"
  read_fails :: "jsstring \<Rightarrow> bool"
  write_fails :: "jsstring \<Rightarrow> bool"
  mkdir_fails :: "jsstring \<Rightarrow> bool"

text \<open>
  The effects of a run, in the order the script issues them, and the state they act on:
  the files on disk and the number of clock readings so far.
\<close>

datatype event =
    StdoutWrite jsstring
  | ConsoleLog jsstring
  | ConsoleWarn jsstring
  | ConsoleError jsstring "error option"
  | HttpGet jsstring
  | MkDir jsstring
  | WriteFile jsstring jsstring
  | Delay nat
  | Shell jsstring

record sys =
  events :: "event list"
  fs :: "jsstring \<rightharpoonup> jsstring"
  clk :: nat

text \<open>
  An awaited call returns, throws, or ends the process (\<open>process.exit\<close>); each carries
  the state reached. \<open>await\<close> sequences two calls the way \<open>await\<close> does in an
  \<open>async\<close> function.
\<close>

datatype 'a res = Return 'a sys | Throw error sys | Exit nat sys

fun await :: "'a res \<Rightarrow> ('a \<Rightarrow> sys \<Rightarrow> 'b res) \<Rightarrow> 'b res" where
  "await (Return x s) f = f x s"
| "await (Throw e s) f = Throw e s"
| "await (Exit n s) f = Exit n s"

definition emit :: "event \<Rightarrow> sys \<Rightarrow> sys" where
  "emit e s = s\<lparr>events := events s @ [e]\<rparr>"

definition existsSync :: "jsstring \<Rightarrow> sys \<Rightarrow> bool" where
  "existsSync p s = (fs s p \<noteq> None)"

definition readFile :: "world \<Rightarrow> jsstring \<Rightarrow> sys \<Rightarrow> jsstring res" where
  "readFile w p s =
     (if read_fails w p then Throw IOError s
      else case fs s p of None \<Rightarrow> Throw IOError s | Some c \<Rightarrow> Return c s)"

definition writeFile :: "world \<Rightarrow> jsstring \<Rightarrow> jsstring \<Rightarrow> sys \<Rightarrow> unit res" where
  "writeFile w p c s =
     (if write_fails w p then Throw IOError s
      else Return () (emit (WriteFile p c) (s\<lparr>fs := (fs s)(p \<mapsto> c)\<rparr>)))"

definition mkdir :: "world \<Rightarrow> jsstring \<Rightarrow> sys \<Rightarrow> unit res" where
  "mkdir w p s = (if mkdir_fails w p then Throw IOError s else Return () (emit (MkDir p) s))"

definition Date_toISOString :: "world \<Rightarrow> sys \<Rightarrow> jsstring \<times> sys" where
  "Date_toISOString w s = (toISOString w (clk s), s\<lparr>clk := Suc (clk s)\<rparr>)"


section \<open>The manifest store and the direct-URL fetcher\<close>

text \<open>
  \<open>loadManifest\<close>, \<open>saveManifest\<close>, \<open>hashContent\<close> and \<open>fetchDoc\<close> of the claude-api and
  claude-code scripts; the two copies differ only in the constant \<open>BASE_URL\<close>, which is
  the first argument here.
\<close>

definition API_BASE_URL :: jsstring where
  "API_BASE_URL = js ''https://platform.claude.com/docs/en''"

definition CODE_BASE_URL :: jsstring where
  "CODE_BASE_URL = js ''https://code.claude.com/docs/en''"

definition MANIFEST_FILE :: "world \<Rightarrow> jsstring" where
  "MANIFEST_FILE w = path_join w (RESOURCES_DIR w) (js ''manifest.json'')"

definition empty_manifest :: "jsstring \<Rightarrow> json" where
  "empty_manifest base =
     JObj [(js ''lastSync'', JStr []), (js ''baseUrl'', JStr base), (js ''files'', JObj [])]"

definition loadManifest :: "jsstring \<Rightarrow> world \<Rightarrow> sys \<Rightarrow> json res" where
  "loadManifest base w s =
     (if existsSync (MANIFEST_FILE w) s then
        (case readFile w (MANIFEST_FILE w) s of
           Return content s1 \<Rightarrow>
             (case JSON_parse w content of
                Some v \<Rightarrow> Return v s1
              | None \<Rightarrow>
                  Return (empty_manifest base)
                    (emit (ConsoleWarn (js ''Failed to load manifest, starting fresh'')) s1))
         | Throw e s1 \<Rightarrow>
             Return (empty_manifest base)
               (emit (ConsoleWarn (js ''Failed to load manifest, starting fresh'')) s1)
         | Exit n s1 \<Rightarrow> Exit n s1)
      else Return (empty_manifest base) s)"

definition saveManifest :: "world \<Rightarrow> jsstring \<Rightarrow> (jsstring \<times> json) list \<Rightarrow> sys \<Rightarrow> unit res" where
  "saveManifest w base files s =
     (let (now, s1) = Date_toISOString w s in
      writeFile w (MANIFEST_FILE w)
        (JSON_stringify w
           (JObj [(js ''lastSync'', JStr now), (js ''baseUrl'', JStr base), (js ''files'', JObj files)]))
        s1)"

definition hashContent :: "world \<Rightarrow> jsstring \<Rightarrow> jsstring" where
  "hashContent w content = sha256_hex w content"

definition response_ok :: "nat \<Rightarrow> bool" where
  "response_ok status = (200 \<le> status \<and> status \<le> 299)"

definition fetchDoc :: "jsstring \<Rightarrow> world \<Rightarrow> jsstring \<Rightarrow> sys \<Rightarrow> jsstring option res" where
  "fetchDoc base w slug s =
     (let url = base @ js ''/'' @ slug @ js ''.md'';
          s1 = emit (HttpGet url) s
      in case http w url of
           NetworkFailure \<Rightarrow>
             Return None (emit (ConsoleError (js ''  Error fetching '' @ slug @ js '':'') (Some FetchError)) s1)
         | Response status body \<Rightarrow>
             if \<not> response_ok status then
               Return None
                 (emit (ConsoleError (js ''  Failed to fetch '' @ slug @ js '': '' @ decimal status) None) s1)
             else
               (case body of
                  None \<Rightarrow>
                    Return None
                      (emit (ConsoleError (js ''  Error fetching '' @ slug @ js '':'') (Some FetchError)) s1)
                | Some content \<Rightarrow>
                    if startsWith content (js ''<!DOCTYPE'') \<or> str_includes content (js ''<html'') then
                      Return None
                        (emit (ConsoleError (js ''  '' @ slug @ js '': Received HTML instead of markdown'') None) s1)
                    else if length content < 50 then
                      Return None (emit (ConsoleError (js ''  '' @ slug @ js '': Content too short'') None) s1)
                    else Return (Some content) s1))"


section \<open>The claude-api sync job\<close>

record DocPage =
  slug :: jsstring
  outputPath :: jsstring
  title :: jsstring
  description :: jsstring

text \<open>
  The variables \<open>main\<close> carries through its loop: \<open>newManifest.files\<close> and the three
  counters. They are lost when \<open>main\<close> throws.
\<close>

record vars =
  newFiles :: "(jsstring \<times> json) list"
  fetched :: nat
  unchanged :: nat
  failed :: nat

definition ManifestEntry :: "jsstring \<Rightarrow> DocPage \<Rightarrow> jsstring \<Rightarrow> jsstring \<Rightarrow> json" where
  "ManifestEntry base page hash now =
     JObj [(js ''slug'', JStr (slug page)),
           (js ''title'', JStr (title page)),
           (js ''description'', JStr (description page)),
           (js ''hash'', JStr hash),
           (js ''lastUpdated'', JStr now),
           (js ''sourceUrl'', JStr (base @ js ''/'' @ slug page))]"

text \<open>
  One iteration of \<open>for (const page of DOC_PAGES)\<close> in the claude-api \<open>main\<close>. The
  branch \<open>oldEntry && oldEntry.hash === hash\<close> is the \<open>Some\<close> case below: it is taken
  exactly when the test holds, and \<open>oldEntry\<close> is then a value, not \<open>undefined\<close>. In the
  other branch a \<open>mkdir\<close> or \<open>writeFile\<close> that throws is not caught inside the loop.
\<close>

definition api_page :: "world \<Rightarrow> bool \<Rightarrow> json \<Rightarrow> DocPage \<Rightarrow> vars \<Rightarrow> sys \<Rightarrow> vars res" where
  "api_page w isDryRun manifest page v s =
     await (fetchDoc API_BASE_URL w (slug page)
              (emit (StdoutWrite (js ''Fetching '' @ slug page @ js ''...'')) s))
       (\<lambda>content s1.
          case content of
            None \<Rightarrow> Return (v\<lparr>failed := failed v + 1\<rparr>) s1
          | Some c \<Rightarrow>
              if c = [] then Return (v\<lparr>failed := failed v + 1\<rparr>) s1
              else
                (let hash = hashContent w c in
                 case manifest_files_at manifest (outputPath page) of
                   Inl e \<Rightarrow> Throw e s1
                 | Inr oldEntry \<Rightarrow>
                     (case (if truthy oldEntry \<and> hash_equals oldEntry hash then oldEntry else None) of
                        Some old \<Rightarrow>
                          Return (v\<lparr>unchanged := unchanged v + 1,
                                    newFiles := assign (newFiles v) (outputPath page) old\<rparr>)
                            (emit (Delay 150) (emit (ConsoleLog (js '' unchanged'')) s1))
                      | None \<Rightarrow>
                          await
                            (let s2 = emit (ConsoleLog (if truthy oldEntry then js '' updated'' else js '' new'')) s1
                             in if isDryRun then Return () s2
                                else
                                  (let filePath = path_join w (RESOURCES_DIR w) (outputPath page) in
                                   await (mkdir w (path_dirname w filePath) s2)
                                     (\<lambda>_ s3. writeFile w filePath c s3)))
                            (\<lambda>_ s4.
                               let (now, s5) = Date_toISOString w s4 in
                               Return (v\<lparr>fetched := fetched v + 1,
                                         newFiles := assign (newFiles v) (outputPath page)
                                                       (ManifestEntry API_BASE_URL page hash now)\<rparr>)
                                 (emit (Delay 150) s5)))))"

fun api_pages :: "world \<Rightarrow> bool \<Rightarrow> json \<Rightarrow> DocPage list \<Rightarrow> vars \<Rightarrow> sys \<Rightarrow> vars res" where
  "api_pages w isDryRun manifest [] v s = Return v s"
| "api_pages w isDryRun manifest (page # rest) v s =
     await (api_page w isDryRun manifest page v s) (api_pages w isDryRun manifest rest)"

fun mkdirs :: "world \<Rightarrow> jsstring list \<Rightarrow> sys \<Rightarrow> unit res" where
  "mkdirs w [] s = Return () s"
| "mkdirs w (d # ds) s = await (mkdir w d s) (\<lambda>_. mkdirs w ds)"

definition api_subdirs :: "jsstring list" where
  "api_subdirs = map js [''models'', ''features'', ''prompting'', ''tools'', ''skills'',
                         ''mcp'', ''agent-sdk'', ''evaluation'', ''guardrails'', ''api'', ''cloud'']"

definition summary :: "vars \<Rightarrow> nat \<Rightarrow> event list" where
  "summary v n =
     [ConsoleLog [], ConsoleLog (js ''Summary''), ConsoleLog (js ''-------''),
      ConsoleLog (js ''Fetched/Updated: '' @ decimal (fetched v)),
      ConsoleLog (js ''Unchanged: '' @ decimal (unchanged v)),
      ConsoleLog (js ''Failed: '' @ decimal (failed v)),
      ConsoleLog (js ''Total: '' @ decimal n)]"

definition api_banner :: "world \<Rightarrow> bool \<Rightarrow> event list" where
  "api_banner w isDryRun =
     [ConsoleLog (js ''Claude API Documentation Sync''),
      ConsoleLog (js ''=============================''),
      ConsoleLog (js ''Mode: '' @ (if isDryRun then js ''DRY RUN'' else js ''LIVE'')),
      ConsoleLog (js ''Source: '' @ API_BASE_URL),
      ConsoleLog (js ''Target: '' @ RESOURCES_DIR w),
      ConsoleLog []]"

definition init_vars :: vars where
  "init_vars = \<lparr>newFiles = [], fetched = 0, unchanged = 0, failed = 0\<rparr>"

text \<open>
  \<open>main\<close> of the claude-api script. \<open>DOC_PAGES\<close> is the argument \<open>pages\<close>, the flag
  \<open>--dry-run\<close> is \<open>isDryRun\<close>, and \<open>disk\<close> holds the files present when the run starts.
\<close>

definition main_claude_api :: "world \<Rightarrow> DocPage list \<Rightarrow> bool \<Rightarrow> (jsstring \<rightharpoonup> jsstring) \<Rightarrow> vars res" where
  "main_claude_api w pages isDryRun disk =
     (let s0 = \<lparr>events = api_banner w isDryRun, fs = disk, clk = 0\<rparr> in
      await (if isDryRun then Return () s0
             else mkdirs w (RESOURCES_DIR w # map (path_join w (RESOURCES_DIR w)) api_subdirs) s0)
        (\<lambda>_ s1.
           await (loadManifest API_BASE_URL w s1)
             (\<lambda>manifest s2.
                await (api_pages w isDryRun manifest pages init_vars s2)
                  (\<lambda>v s3.
                     await (if isDryRun then Return () s3
                            else saveManifest w API_BASE_URL (newFiles v) s3)
                       (\<lambda>_ s4. Return v (s4\<lparr>events := events s4 @ summary v (length pages)\<rparr>))))))"




section \<open>The claude-code sync job\<close>

text \<open>
  The claude-code script keys the manifest by \<open>page.slug\<close> and writes to
  \<open>${slug}.md\<close>; its \<open>DocPage\<close> has no \<open>outputPath\<close>, which is left unused here.
\<close>

definition code_page :: "world \<Rightarrow> bool \<Rightarrow> json \<Rightarrow> DocPage \<Rightarrow> vars \<Rightarrow> sys \<Rightarrow> vars res" where
  "code_page w isDryRun manifest page v s =
     await (fetchDoc CODE_BASE_URL w (slug page)
              (emit (StdoutWrite (js ''Fetching '' @ slug page @ js ''...'')) s))
       (\<lambda>content s1.
          case content of
            None \<Rightarrow> Return (v\<lparr>failed := failed v + 1\<rparr>) s1
          | Some c \<Rightarrow>
              if c = [] then Return (v\<lparr>failed := failed v + 1\<rparr>) s1
              else
                (let hash = hashContent w c in
                 case manifest_files_at manifest (slug page) of
                   Inl e \<Rightarrow> Throw e s1
                 | Inr oldEntry \<Rightarrow>
                     (case (if truthy oldEntry \<and> hash_equals oldEntry hash then oldEntry else None) of
                        Some old \<Rightarrow>
                          Return (v\<lparr>unchanged := unchanged v + 1,
                                    newFiles := assign (newFiles v) (slug page) old\<rparr>)
                            (emit (Delay 200) (emit (ConsoleLog (js '' unchanged'')) s1))
                      | None \<Rightarrow>
                          await
                            (let s2 = emit (ConsoleLog (if truthy oldEntry then js '' updated'' else js '' new'')) s1
                             in if isDryRun then Return () s2
                                else writeFile w (path_join w (RESOURCES_DIR w) (slug page @ js ''.md'')) c s2)
                            (\<lambda>_ s4.
                               let (now, s5) = Date_toISOString w s4 in
                               Return (v\<lparr>fetched := fetched v + 1,
                                         newFiles := assign (newFiles v) (slug page)
                                                       (ManifestEntry CODE_BASE_URL page hash now)\<rparr>)
                                 (emit (Delay 200) s5)))))"

fun code_pages :: "world \<Rightarrow> bool \<Rightarrow> json \<Rightarrow> DocPage list \<Rightarrow> vars \<Rightarrow> sys \<Rightarrow> vars res" where
  "code_pages w isDryRun manifest [] v s = Return v s"
| "code_pages w isDryRun manifest (page # rest) v s =
     await (code_page w isDryRun manifest page v s) (code_pages w isDryRun manifest rest)"

definition changelogUrl :: jsstring where
  "changelogUrl = js ''https://raw.githubusercontent.com/anthropics/claude-code/main/CHANGELOG.md''"

definition changelog_entry :: "jsstring \<Rightarrow> jsstring \<Rightarrow> json" where
  "changelog_entry hash now =
     JObj [(js ''slug'', JStr (js ''changelog'')),
           (js ''title'', JStr (js ''Changelog'')),
           (js ''description'', JStr (js ''Release notes and version history'')),
           (js ''hash'', JStr hash),
           (js ''lastUpdated'', JStr now),
           (js ''sourceUrl'', JStr changelogUrl)]"

text \<open>
  The block \<open>// Fetch changelog from GitHub\<close>. Everything from the request to the
  manifest assignment is inside one \<open>try\<close>; \<open>changelog_catch\<close> is its \<open>catch\<close>. The
  \<open>if (response.ok)\<close> has no \<open>else\<close>. \<open>fetched++\<close> precedes the write, and the variables
  survive the \<open>catch\<close>.
\<close>

definition changelog_catch :: "vars \<Rightarrow> sys \<Rightarrow> vars res" where
  "changelog_catch v s = Return (v\<lparr>failed := failed v + 1\<rparr>) (emit (ConsoleLog (js '' failed'')) s)"

definition code_changelog :: "world \<Rightarrow> bool \<Rightarrow> json \<Rightarrow> vars \<Rightarrow> sys \<Rightarrow> vars res" where
  "code_changelog w isDryRun manifest v s =
     (let s1 = emit (HttpGet changelogUrl) (emit (StdoutWrite (js ''Fetching changelog...'')) s)
      in case http w changelogUrl of
           NetworkFailure \<Rightarrow> changelog_catch v s1
         | Response status body \<Rightarrow>
             if \<not> response_ok status then Return v s1
             else
               (case body of
                  None \<Rightarrow> changelog_catch v s1
                | Some content \<Rightarrow>
                    (let hash = hashContent w content in
                     case manifest_files_at manifest (js ''changelog'') of
                       Inl e \<Rightarrow> changelog_catch v s1
                     | Inr oldEntry \<Rightarrow>
                         (case (if truthy oldEntry \<and> hash_equals oldEntry hash then oldEntry else None) of
                            Some old \<Rightarrow>
                              Return (v\<lparr>unchanged := unchanged v + 1,
                                        newFiles := assign (newFiles v) (js ''changelog'') old\<rparr>)
                                (emit (ConsoleLog (js '' unchanged'')) s1)
                          | None \<Rightarrow>
                              (let s2 = emit (ConsoleLog (if truthy oldEntry then js '' updated'' else js '' new'')) s1;
                                   v1 = v\<lparr>fetched := fetched v + 1\<rparr>
                               in case (if isDryRun then Return () s2
                                        else writeFile w (path_join w (RESOURCES_DIR w) (js ''changelog.md'')) content s2) of
                                    Throw e s3 \<Rightarrow> changelog_catch v1 s3
                                  | Exit n s3 \<Rightarrow> Exit n s3
                                  | Return u s3 \<Rightarrow>
                                      (let (now, s4) = Date_toISOString w s3 in
                                       Return (v1\<lparr>newFiles := assign (newFiles v1) (js ''changelog'')
                                                                  (changelog_entry hash now)\<rparr>) s4))))))"

definition code_banner :: "world \<Rightarrow> bool \<Rightarrow> event list" where
  "code_banner w isDryRun =
     [ConsoleLog (js ''Claude Code Documentation Sync''),
      ConsoleLog (js ''==============================''),
      ConsoleLog (js ''Mode: '' @ (if isDryRun then js ''DRY RUN'' else js ''LIVE'')),
      ConsoleLog (js ''Source: '' @ CODE_BASE_URL),
      ConsoleLog (js ''Target: '' @ RESOURCES_DIR w),
      ConsoleLog []]"

definition main_claude_code :: "world \<Rightarrow> DocPage list \<Rightarrow> bool \<Rightarrow> (jsstring \<rightharpoonup> jsstring) \<Rightarrow> vars res" where
  "main_claude_code w pages isDryRun disk =
     (let s0 = \<lparr>events = code_banner w isDryRun, fs = disk, clk = 0\<rparr> in
      await (if isDryRun then Return () s0 else mkdir w (RESOURCES_DIR w) s0)
        (\<lambda>_ s1.
           await (loadManifest CODE_BASE_URL w s1)
             (\<lambda>manifest s2.
                await (code_pages w isDryRun manifest pages init_vars s2)
                  (\<lambda>v s3.
                     await (code_changelog w isDryRun manifest v s3)
                       (\<lambda>v' s4.
                          await (if isDryRun then Return () s4
                                 else saveManifest w CODE_BASE_URL (newFiles v') s4)
                            (\<lambda>_ s5. Return v' (s5\<lparr>events := events s5 @ summary v' (length pages + 1)\<rparr>)))))))"



section \<open>The openai-codex sync job\<close>


record DocPath =
  src :: jsstring
  dest :: jsstring


definition TEMP_DIR :: jsstring where
  "TEMP_DIR = js ''/tmp/openai-codex-sync''"

text \<open>
  \<open>String.prototype.trim\<close> removes ECMAScript white space and line terminators from
  both ends.
\<close>

definition is_js_space :: "code_unit \<Rightarrow> bool" where
  "is_js_space c =
     (c \<in> set [0x9, 0xA, 0xB, 0xC, 0xD, 0x20, 0xA0, 0x1680, 0x2000, 0x2001, 0x2002, 0x2003,
               0x2004, 0x2005, 0x2006, 0x2007, 0x2008, 0x2009, 0x200A, 0x2028, 0x2029,
               0x202F, 0x205F, 0x3000, 0xFEFF])"

definition trim :: "jsstring \<Rightarrow> jsstring" where
  "trim s = rev (dropWhile is_js_space (rev (dropWhile is_js_space s)))"






definition codex_entry :: "DocPath \<Rightarrow> jsstring \<Rightarrow> jsstring \<Rightarrow> json" where
  "codex_entry doc hash now =
     JObj [(js ''src'', JStr (src doc)), (js ''dest'', JStr (dest doc)),
           (js ''hash'', JStr hash), (js ''lastUpdated'', JStr now)]"

text \<open>
  One iteration of \<open>for (const doc of DOC_PATHS)\<close>. The counter \<open>copied\<close> is the field
  \<open>fetched\<close>. The body after the existence test is inside a \<open>try\<close>, whose \<open>catch\<close> is
  \<open>codex_catch\<close>: the variables survive it, and \<open>copied++\<close> precedes the write. The
  text of the caught error, which the message ends with, is not rendered.
\<close>

definition codex_catch :: "error \<Rightarrow> vars \<Rightarrow> sys \<Rightarrow> vars res" where
  "codex_catch e v s = Return (v\<lparr>failed := failed v + 1\<rparr>) (emit (ConsoleLog (js '' error: '')) s)"

definition codex_doc :: "world \<Rightarrow> bool \<Rightarrow> json \<Rightarrow> DocPath \<Rightarrow> vars \<Rightarrow> sys \<Rightarrow> vars res" where
  "codex_doc w isDryRun manifest doc v s =
     (let sourcePath = path_join w TEMP_DIR (src doc);
          destPath = path_join w (RESOURCES_DIR w) (dest doc);
          s1 = emit (StdoutWrite (js ''Processing '' @ src doc @ js ''...'')) s
      in if \<not> existsSync sourcePath s1 then
           Return (v\<lparr>failed := failed v + 1\<rparr>) (emit (ConsoleLog (js '' not found'')) s1)
         else
           (case readFile w sourcePath s1 of
              Throw e s2 \<Rightarrow> codex_catch e v s2
            | Exit n s2 \<Rightarrow> Exit n s2
            | Return content s2 \<Rightarrow>
                (let hash = hashContent w content in
                 case manifest_files_at manifest (dest doc) of
                   Inl e \<Rightarrow> codex_catch e v s2
                 | Inr oldEntry \<Rightarrow>
                     (case (if truthy oldEntry \<and> hash_equals oldEntry hash then oldEntry else None) of
                        Some old \<Rightarrow>
                          Return (v\<lparr>unchanged := unchanged v + 1,
                                    newFiles := assign (newFiles v) (dest doc) old\<rparr>)
                            (emit (ConsoleLog (js '' unchanged'')) s2)
                      | None \<Rightarrow>
                          (let s3 = emit (ConsoleLog (if truthy oldEntry then js '' updated'' else js '' new'')) s2;
                               v1 = v\<lparr>fetched := fetched v + 1\<rparr>
                           in case (if isDryRun then Return () s3
                                    else await (mkdir w (path_dirname w destPath) s3)
                                           (\<lambda>_ s4. writeFile w destPath content s4)) of
                                Throw e s5 \<Rightarrow> codex_catch e v1 s5
                              | Exit n s5 \<Rightarrow> Exit n s5
                              | Return u s5 \<Rightarrow>
                                  (let (now, s6) = Date_toISOString w s5 in
                                   Return (v1\<lparr>newFiles := assign (newFiles v1) (dest doc)
                                                              (codex_entry doc hash now)\<rparr>) s6))))))"

fun codex_docs :: "world \<Rightarrow> bool \<Rightarrow> json \<Rightarrow> DocPath list \<Rightarrow> vars \<Rightarrow> sys \<Rightarrow> vars res" where
  "codex_docs w isDryRun manifest [] v s = Return v s"
| "codex_docs w isDryRun manifest (doc # rest) v s =
     await (codex_doc w isDryRun manifest doc v s) (codex_docs w isDryRun manifest rest)"






section \<open>The gemini-dev sync job\<close>

text \<open>
  The gemini script converts HTML pages and keeps no manifest. \<open>extractMainContent\<close>
  (DOM queries of linkedom) and \<open>turndown.turndown\<close> are library work and fields of
  \<open>html_env\<close>; \<open>None\<close> means the call throws.
\<close>

record GeminiPage =
  url :: jsstring
  g_outputPath :: jsstring
  g_title :: jsstring

record html_env =
  extractMainContent :: "jsstring \<Rightarrow> jsstring option"
  turndown :: "jsstring \<Rightarrow> jsstring option"

definition NL :: code_unit where
  "NL = 0x0A"

definition DQ :: code_unit where
  "DQ = 0x22"

text \<open>
  \<open>markdown.replace(/\n{3,}/g, "\n\n")\<close>: at each position the pattern matches the
  longest run of newlines starting there when it has at least three; the match is
  replaced and scanning goes on after it, otherwise one code unit is copied.
\<close>

function collapse_newlines :: "jsstring \<Rightarrow> jsstring" where
  "collapse_newlines [] = []"
| "collapse_newlines (c # cs) =
     (if 3 \<le> length (takeWhile (\<lambda>x. x = NL) (c # cs))
      then [NL, NL] @ collapse_newlines (dropWhile (\<lambda>x. x = NL) cs)
      else c # collapse_newlines cs)"
  by pat_completeness auto
termination
  by (relation "measure length") (auto simp: length_dropWhile_le less_Suc_eq_le)

definition frontmatter :: "jsstring \<Rightarrow> jsstring \<Rightarrow> jsstring \<Rightarrow> jsstring" where
  "frontmatter title_text source now =
     js ''---'' @ [NL] @
     js ''title: '' @ [DQ] @ title_text @ [DQ, NL] @
     js ''source: '' @ [DQ] @ source @ [DQ, NL] @
     js ''synced: '' @ [DQ] @ now @ [DQ, NL] @
     js ''---'' @ [NL, NL]"

text \<open>\<open>new Date().toISOString().split("T")[0]\<close> is the reading up to its first \<open>T\<close>.\<close>

definition cleanMarkdown :: "world \<Rightarrow> jsstring \<Rightarrow> jsstring \<Rightarrow> jsstring \<Rightarrow> sys \<Rightarrow> jsstring \<times> sys" where
  "cleanMarkdown w markdown title_text source s =
     (let cleaned = trim (collapse_newlines markdown);
          (iso, s1) = Date_toISOString w s;
          now = takeWhile (\<lambda>c. c \<noteq> 0x54) iso
      in (frontmatter title_text source now @ cleaned, s1))"

text \<open>
  \<open>fetchPage\<close> issues its request as soon as it is called and resumes when the response
  arrives: \<open>fetchPage_result\<close> is what it then returns and logs.
\<close>

definition fetchPage_result :: "world \<Rightarrow> GeminiPage \<Rightarrow> jsstring option \<times> event list" where
  "fetchPage_result w page =
     (case http w (url page) of
        NetworkFailure \<Rightarrow>
          (None, [ConsoleError (js ''  '' @ [0x2717] @ js '' Failed to fetch '' @ url page @ js '': '') (Some FetchError)])
      | Response status body \<Rightarrow>
          if \<not> response_ok status then
            (None, [ConsoleError (js ''  '' @ [0x2717] @ js '' Failed to fetch '' @ url page @ js '': '' @ decimal status) None])
          else
            (case body of
               None \<Rightarrow>
                 (None, [ConsoleError (js ''  '' @ [0x2717] @ js '' Failed to fetch '' @ url page @ js '': '') (Some FetchError)])
             | Some html \<Rightarrow> (Some html, [])))"

text \<open>
  \<open>await Promise.all(batch.map(fetchPage))\<close>: \<open>map\<close> calls \<open>fetchPage\<close> on every page of
  the batch in turn, so all requests of the batch are issued before any response is
  awaited. The order in which the failures of one batch are logged depends on the
  arrival of the responses; list order is taken here.
\<close>

definition fetch_batch :: "world \<Rightarrow> GeminiPage list \<Rightarrow> sys \<Rightarrow> (GeminiPage \<times> jsstring option) list \<times> sys" where
  "fetch_batch w batch s =
     (map (\<lambda>page. (page, fst (fetchPage_result w page))) batch,
      s\<lparr>events := events s @ map (\<lambda>page. HttpGet (url page)) batch
                             @ concat (map (\<lambda>page. snd (fetchPage_result w page)) batch)\<rparr>)"

definition concurrency :: nat where
  "concurrency = 5"

function fetch_batches :: "world \<Rightarrow> GeminiPage list \<Rightarrow> nat \<Rightarrow> (GeminiPage \<times> jsstring option) list \<Rightarrow> sys
                           \<Rightarrow> (GeminiPage \<times> jsstring option) list \<times> sys" where
  "fetch_batches w pages i results s =
     (if i < length pages then
        (let (batchResults, s1) = fetch_batch w (take concurrency (drop i pages)) s
         in fetch_batches w pages (i + concurrency) (results @ batchResults) s1)
      else (results, s))"
  by pat_completeness auto
termination
  by (relation "measure (\<lambda>(w, pages, i, results, s). length pages - i)") (auto simp: concurrency_def)

declare fetch_batches.simps [simp del]

text \<open>
  The body of \<open>for (const { page, html } of results)\<close>: \<open>gemini_catch\<close> is the \<open>catch\<close> of
  its \<open>try\<close>, which contains the conversion and the write.
\<close>

definition gemini_catch :: "GeminiPage \<Rightarrow> error \<Rightarrow> nat \<Rightarrow> sys \<Rightarrow> nat res" where
  "gemini_catch page e successCount s =
     Return successCount
       (emit (ConsoleError (js ''  '' @ [0x2717] @ js '' Failed to process '' @ url page @ js '': '') (Some e)) s)"

definition process_result :: "world \<Rightarrow> html_env \<Rightarrow> jsstring \<Rightarrow> bool \<Rightarrow> GeminiPage \<times> jsstring option \<Rightarrow> nat \<Rightarrow> sys \<Rightarrow> nat res" where
  "process_result w env outputDir dryRun r successCount s =
     (case r of (page, html_opt) \<Rightarrow>
        (case html_opt of
           None \<Rightarrow> Return successCount s
         | Some html \<Rightarrow>
             if html = [] then Return successCount s
             else
               (case extractMainContent env html of
                  None \<Rightarrow> gemini_catch page TypeError successCount s
                | Some contentHtml \<Rightarrow>
                    (case turndown env contentHtml of
                       None \<Rightarrow> gemini_catch page TypeError successCount s
                     | Some markdown \<Rightarrow>
                         (let (cleaned, s1) = cleanMarkdown w markdown (g_title page) (url page) s;
                              outputPath = path_join w outputDir (g_outputPath page)
                          in if dryRun then
                               Return (successCount + 1)
                                 (emit (ConsoleLog (js ''  '' @ [0x2713] @ js '' '' @ g_outputPath page @ js '' (''
                                                      @ decimal (length cleaned) @ js '' bytes)'')) s1)
                             else
                               (case await (mkdir w (path_dirname w outputPath) s1)
                                       (\<lambda>_ s2. writeFile w outputPath cleaned s2) of
                                  Throw e s3 \<Rightarrow> gemini_catch page e successCount s3
                                | Exit n s3 \<Rightarrow> Exit n s3
                                | Return u s3 \<Rightarrow>
                                    Return (successCount + 1)
                                      (emit (ConsoleLog (js ''  '' @ [0x2713] @ js '' '' @ g_outputPath page)) s3)))))))"

fun process_results :: "world \<Rightarrow> html_env \<Rightarrow> jsstring \<Rightarrow> bool \<Rightarrow> (GeminiPage \<times> jsstring option) list \<Rightarrow> nat \<Rightarrow> sys \<Rightarrow> nat res" where
  "process_results w env outputDir dryRun [] successCount s = Return successCount s"
| "process_results w env outputDir dryRun (r # rest) successCount s =
     await (process_result w env outputDir dryRun r successCount s)
       (process_results w env outputDir dryRun rest)"

definition syncDocs :: "world \<Rightarrow> html_env \<Rightarrow> GeminiPage list \<Rightarrow> jsstring \<Rightarrow> bool \<Rightarrow> (jsstring \<rightharpoonup> jsstring) \<Rightarrow> nat res" where
  "syncDocs w env pages outputDir dryRun disk =
     (let s0 = \<lparr>events =
                   ConsoleLog (js ''Syncing '' @ decimal (length pages) @ js '' documentation pages to ''
                               @ outputDir @ [NL])
                   # (if dryRun then [ConsoleLog (js ''(dry run - no files will be written)'' @ [NL])] else []),
                 fs = disk, clk = 0\<rparr>
      in await (if dryRun then Return () s0
                else mkdirs w [outputDir, path_join w outputDir (js ''multimodal'')] s0)
           (\<lambda>_ s1.
              let (results, s2) = fetch_batches w pages 0 [] s1 in
              await (process_results w env outputDir dryRun results 0 s2)
                (\<lambda>successCount s3.
                   Return successCount
                     (emit (ConsoleLog ([NL] @ js ''Synced '' @ decimal successCount @ js ''/''
                                        @ decimal (length pages) @ js '' pages'')) s3))))"



section \<open>Observations and sample inputs\<close>

text \<open>
  What a finished call leaves behind, and the state a run starts from. The sample
  environment stands in for the outside world in the evaluated examples: \<open>path.join\<close>
  puts a slash between its arguments, \<open>path.dirname\<close> cuts at the last slash and the
  hash is the content itself.
\<close>

fun final_state :: "'a res \<Rightarrow> sys" where
  "final_state (Return x s) = s"
| "final_state (Throw e s) = s"
| "final_state (Exit n s) = s"

fun returned :: "'a res \<Rightarrow> 'a option" where
  "returned (Return x s) = Some x"
| "returned (Throw e s) = None"
| "returned (Exit n s) = None"

definition start :: "(jsstring \<rightharpoonup> jsstring) \<Rightarrow> sys" where
  "start disk = \<lparr>events = [], fs = disk, clk = 0\<rparr>"

definition sample_world :: "(jsstring \<Rightarrow> response) \<Rightarrow> (jsstring \<Rightarrow> json option) \<Rightarrow> world" where
  "sample_world remote parse =
     \<lparr>RESOURCES_DIR = js ''resources'',
      path_join = (\<lambda>dir name. dir @ js ''/'' @ name),
      path_dirname = (\<lambda>path. rev (drop 1 (dropWhile (\<lambda>c. c \<noteq> 0x2F) (rev path)))),
      http = remote,
      sha256_hex = (\<lambda>content. content),
      JSON_parse = parse,
      JSON_stringify = (\<lambda>v. []),
      toISOString = (\<lambda>k. js ''2026-01-01T00:00:00.000Z''),
      read_fails = (\<lambda>p. False),
      write_fails = (\<lambda>p. False),
      mkdir_fails = (\<lambda>p. False)\<rparr>"

definition intro_page :: DocPage where
  "intro_page = \<lparr>slug = js ''intro'', outputPath = js ''intro.md'', title = js ''Introduction'',
                  description = js ''Introduction to Claude API''\<rparr>"

definition quoting_body :: jsstring where
  "quoting_body = js ''To build a page, start with an <html> element and add a body.''"


text \<open>
  Modelled from the spec's words, for comparison with \<open>cleanMarkdown\<close>: the text is cut
  into lines at the newlines, every run of three or more consecutive empty lines is
  replaced by one empty line, the lines are joined again and the result is trimmed.
\<close>

fun split_lines :: "jsstring \<Rightarrow> jsstring list" where
  "split_lines [] = [[]]"
| "split_lines (c # cs) =
     (if c = NL then [] # split_lines cs
      else (case split_lines cs of [] \<Rightarrow> [[c]] | l # ls \<Rightarrow> (c # l) # ls))"

fun join_lines :: "jsstring list \<Rightarrow> jsstring" where
  "join_lines [] = []"
| "join_lines [l] = l"
| "join_lines (l # l' # ls) = l @ [NL] @ join_lines (l' # ls)"

function spec_collapse_blank_lines :: "jsstring list \<Rightarrow> jsstring list" where
  "spec_collapse_blank_lines [] = []"
| "spec_collapse_blank_lines (l # ls) =
     (if 3 \<le> length (takeWhile (\<lambda>x. x = []) (l # ls))
      then [] # spec_collapse_blank_lines (dropWhile (\<lambda>x. x = []) ls)
      else l # spec_collapse_blank_lines ls)"
  by pat_completeness auto
termination
  by (relation "measure length") (auto simp: length_dropWhile_le less_Suc_eq_le)

definition spec_cleaned :: "jsstring \<Rightarrow> jsstring" where
  "spec_cleaned body = trim (join_lines (spec_collapse_blank_lines (split_lines body)))"


text \<open>
  Derived observations of the claude-api job: what \<open>fetchDoc\<close> returns and logs for a
  slug, what one loop iteration logs for a page, what \<open>loadManifest\<close> returns and logs
  on a disk. Each is read off the function itself, run from the empty starting state.
  \<open>is_write\<close> singles out the effects that create or change something on disk,
  \<open>is_console\<close> what is printed.
\<close>

definition doc_fetched :: "jsstring \<Rightarrow> world \<Rightarrow> jsstring \<Rightarrow> jsstring option" where
  "doc_fetched base w sl =
     (case fetchDoc base w sl (start Map.empty) of Return r s \<Rightarrow> r | Throw e s \<Rightarrow> None | Exit n s \<Rightarrow> None)"

definition fetchDoc_events :: "jsstring \<Rightarrow> world \<Rightarrow> jsstring \<Rightarrow> event list" where
  "fetchDoc_events base w sl = events (final_state (fetchDoc base w sl (start Map.empty)))"

definition api_page_events :: "world \<Rightarrow> bool \<Rightarrow> json \<Rightarrow> DocPage \<Rightarrow> event list" where
  "api_page_events w isDryRun manifest page =
     events (final_state (api_page w isDryRun manifest page init_vars (start Map.empty)))"

fun is_write :: "event \<Rightarrow> bool" where
  "is_write (MkDir p) = True"
| "is_write (WriteFile p c) = True"
| "is_write (StdoutWrite t) = False"
| "is_write (ConsoleLog t) = False"
| "is_write (ConsoleWarn t) = False"
| "is_write (ConsoleError t e) = False"
| "is_write (HttpGet u) = False"
| "is_write (Delay n) = False"
| "is_write (Shell c) = False"


definition manifest_loaded :: "jsstring \<Rightarrow> world \<Rightarrow> (jsstring \<rightharpoonup> jsstring) \<Rightarrow> json" where
  "manifest_loaded base w disk =
     (case loadManifest base w (start disk) of Return m s \<Rightarrow> m | Throw e s \<Rightarrow> JNull | Exit n s \<Rightarrow> JNull)"

definition loadManifest_events :: "jsstring \<Rightarrow> world \<Rightarrow> (jsstring \<rightharpoonup> jsstring) \<Rightarrow> event list" where
  "loadManifest_events base w disk = events (final_state (loadManifest base w (start disk)))"


fun is_request :: "event \<Rightarrow> bool" where
  "is_request (HttpGet u) = True"
| "is_request (StdoutWrite t) = False"
| "is_request (ConsoleLog t) = False"
| "is_request (ConsoleWarn t) = False"
| "is_request (ConsoleError t e) = False"
| "is_request (MkDir p) = False"
| "is_request (WriteFile p c) = False"
| "is_request (Delay n) = False"
| "is_request (Shell c) = False"


definition plain_body :: jsstring where
  "plain_body = js ''Claude is a family of large language models developed by Anthropic.''"

definition online :: world where
  "online = sample_world (\<lambda>u. Response 200 (Some plain_body)) (\<lambda>t. None)"

definition models_page :: GeminiPage where
  "models_page = \<lparr>url = js ''https://ai.google.dev/gemini-api/docs/models'', g_outputPath = js ''models.md'',
                   g_title = js ''Gemini Models Overview''\<rparr>"

definition text_page :: GeminiPage where
  "text_page = \<lparr>url = js ''https://ai.google.dev/gemini-api/docs/text-generation'',
                 g_outputPath = js ''text-generation.md'', g_title = js ''Text Generation''\<rparr>"

text \<open>
  A page as the gemini-dev job receives it, and what the two library calls return on it:
  \<open>extractMainContent\<close> finds the \<open>article\<close> element and returns its inner HTML, and
  \<open>turndown\<close> turns the one paragraph into its text. \<open>article_env\<close> tabulates the two
  functions at this page, the only input at which the examples apply them. In
  \<open>read_only\<close> no directory can be created; \<open>not_found\<close> answers every request with 404.
  \<open>gemini_DOC_PAGES\<close> is the list \<open>DOC_PAGES\<close> of the gemini-dev script.
\<close>

definition article_html :: jsstring where
  "article_html = js ''<html><body><article><p>Gemini is a family of models.</p></article></body></html>''"

definition article_env :: html_env where
  "article_env =
     \<lparr>extractMainContent =
        (\<lambda>html. if html = article_html then Some (js ''<p>Gemini is a family of models.</p>'') else None),
      turndown =
        (\<lambda>html. if html = js ''<p>Gemini is a family of models.</p>''
                then Some (js ''Gemini is a family of models.'') else None)\<rparr>"

definition gemini_online :: world where
  "gemini_online = sample_world (\<lambda>u. Response 200 (Some article_html)) (\<lambda>t. None)"

definition read_only :: world where
  "read_only = gemini_online\<lparr>mkdir_fails := (\<lambda>p. True)\<rparr>"

definition gemini_DOC_PAGES :: "GeminiPage list" where
  "gemini_DOC_PAGES =
     [models_page,
      text_page,
      \<lparr>url = js ''https://ai.google.dev/gemini-api/docs/structured-output'',
       g_outputPath = js ''structured-outputs.md'', g_title = js ''Structured Outputs''\<rparr>,
      \<lparr>url = js ''https://ai.google.dev/gemini-api/docs/function-calling'',
       g_outputPath = js ''function-calling.md'', g_title = js ''Function Calling''\<rparr>,
      \<lparr>url = js ''https://ai.google.dev/gemini-api/docs/image-understanding'',
       g_outputPath = js ''multimodal/images.md'', g_title = js ''Image Understanding''\<rparr>,
      \<lparr>url = js ''https://ai.google.dev/gemini-api/docs/document-processing'',
       g_outputPath = js ''multimodal/documents.md'', g_title = js ''Document Processing''\<rparr>,
      \<lparr>url = js ''https://ai.google.dev/gemini-api/docs/audio'',
       g_outputPath = js ''multimodal/audio.md'', g_title = js ''Audio Understanding''\<rparr>,
      \<lparr>url = js ''https://ai.google.dev/gemini-api/docs/video-understanding'',
       g_outputPath = js ''multimodal/video.md'', g_title = js ''Video Understanding''\<rparr>,
      \<lparr>url = js ''https://ai.google.dev/gemini-api/docs/files'',
       g_outputPath = js ''files-api.md'', g_title = js ''Files API''\<rparr>,
      \<lparr>url = js ''https://ai.google.dev/gemini-api/docs/caching'',
       g_outputPath = js ''context-caching.md'', g_title = js ''Context Caching''\<rparr>,
      \<lparr>url = js ''https://ai.google.dev/gemini-api/docs/tokens'',
       g_outputPath = js ''token-counting.md'', g_title = js ''Token Counting''\<rparr>,
      \<lparr>url = js ''https://ai.google.dev/gemini-api/docs/long-context'',
       g_outputPath = js ''long-context.md'', g_title = js ''Long Context''\<rparr>,
      \<lparr>url = js ''https://ai.google.dev/gemini-api/docs/code-execution'',
       g_outputPath = js ''code-execution.md'', g_title = js ''Code Execution''\<rparr>,
      \<lparr>url = js ''https://ai.google.dev/gemini-api/docs/url-context'',
       g_outputPath = js ''url-context.md'', g_title = js ''URL Context''\<rparr>,
      \<lparr>url = js ''https://ai.google.dev/gemini-api/docs/grounding'',
       g_outputPath = js ''search-grounding.md'', g_title = js ''Google Search Grounding''\<rparr>]"

definition not_found :: world where
  "not_found = sample_world (\<lambda>u. Response 404 None) (\<lambda>t. None)"


definition readme_doc :: DocPath where
  "readme_doc = \<lparr>src = js ''README.md'', dest = js ''readme.md''\<rparr>"





definition changelog_missing :: world where
  "changelog_missing =
     sample_world (\<lambda>u. if u = changelogUrl then Response 404 None else Response 200 (Some plain_body))
       (\<lambda>t. None)"


text \<open>
  Observations of the gemini-dev job. \<open>chunks n xs\<close> cuts a list into consecutive pieces
  of \<open>n\<close> elements, the last one possibly shorter; \<open>written_paths\<close> lists the paths of
  the files written, in the order of the writes. A fetched page converts when its body
  is not empty and neither library call throws; it is synced when moreover, in a live
  run, its directory can be created and its file written.
\<close>

function chunks :: "nat \<Rightarrow> 'a list \<Rightarrow> 'a list list" where
  "chunks n xs = (if n = 0 \<or> xs = [] then [] else take n xs # chunks n (drop n xs))"
  by pat_completeness auto
termination
  by (relation "measure (\<lambda>(n, xs). length xs)") auto

declare chunks.simps [simp del]

fun written_paths :: "event list \<Rightarrow> jsstring list" where
  "written_paths [] = []"
| "written_paths (e # es) = (case e of WriteFile p c \<Rightarrow> p # written_paths es | _ \<Rightarrow> written_paths es)"

definition result_converts :: "html_env \<Rightarrow> GeminiPage \<times> jsstring option \<Rightarrow> bool" where
  "result_converts env r =
     (case snd r of
        None \<Rightarrow> False
      | Some html \<Rightarrow>
          html \<noteq> [] \<and>
          (case extractMainContent env html of None \<Rightarrow> False | Some c \<Rightarrow> turndown env c \<noteq> None))"

definition result_synced :: "world \<Rightarrow> html_env \<Rightarrow> jsstring \<Rightarrow> bool \<Rightarrow> GeminiPage \<times> jsstring option \<Rightarrow> bool" where
  "result_synced w env outputDir dryRun r =
     (result_converts env r \<and>
      (dryRun \<or>
       (\<not> mkdir_fails w (path_dirname w (path_join w outputDir (g_outputPath (fst r)))) \<and>
        \<not> write_fails w (path_join w outputDir (g_outputPath (fst r))))))"


text \<open>
  A second run of the claude-api and openai-codex jobs: the manifest written by an
  earlier run is on disk. In \<open>previous_manifest\<close> the introduction is recorded with the
  hash of what the remote still serves, the get-started page with another hash, and
  the pricing page is not recorded. \<open>sample_parse\<close> tabulates \<open>JSON.parse\<close> at the three
  texts the examples read, and in \<open>second_run\<close> the \<open>k\<close>-th clock reading, for \<open>k\<close> up
  to nine, is \<open>k\<close> seconds past midnight; in \<open>disk_full\<close> every write fails. \<open>page_changed\<close> says that a
  page is fetched and found new or updated, which is when the loop of the claude-api job
  reads the clock.
\<close>

definition quoted :: "string \<Rightarrow> jsstring" where
  "quoted s = [DQ] @ js s @ [DQ]"

definition files_number_text :: jsstring where
  "files_number_text = js ''{'' @ quoted ''files'' @ js '':5}''"

definition get_started_page :: DocPage where
  "get_started_page = \<lparr>slug = js ''get-started'', outputPath = js ''get-started.md'',
                        title = js ''Get Started'', description = js ''Make your first API call''\<rparr>"

definition pricing_page :: DocPage where
  "pricing_page = \<lparr>slug = js ''about-claude/pricing'', outputPath = js ''pricing.md'',
                    title = js ''Pricing'', description = js ''API pricing and token costs''\<rparr>"

definition previous_manifest :: json where
  "previous_manifest =
     JObj [(js ''lastSync'', JStr (js ''2025-12-01T00:00:00.000Z'')),
           (js ''baseUrl'', JStr (js ''https://platform.claude.com/docs/en'')),
           (js ''files'',
            JObj [(js ''intro.md'',
                   JObj [(js ''hash'', JStr plain_body),
                         (js ''lastUpdated'', JStr (js ''2025-12-01T00:00:00.000Z''))]),
                  (js ''get-started.md'',
                   JObj [(js ''hash'', JStr (js ''0000'')),
                         (js ''lastUpdated'', JStr (js ''2025-11-01T00:00:00.000Z''))])])]"

definition previous_manifest_text :: jsstring where
  "previous_manifest_text =
     js ''{'' @ quoted ''lastSync'' @ js '':'' @ quoted ''2025-12-01T00:00:00.000Z'' @ js '','' @
     quoted ''baseUrl'' @ js '':'' @ quoted ''https://platform.claude.com/docs/en'' @ js '','' @
     quoted ''files'' @ js '':{'' @
       quoted ''intro.md'' @ js '':{'' @ quoted ''hash'' @ js '':'' @ [DQ] @ plain_body @ [DQ] @ js '','' @
         quoted ''lastUpdated'' @ js '':'' @ quoted ''2025-12-01T00:00:00.000Z'' @ js ''},'' @
       quoted ''get-started.md'' @ js '':{'' @ quoted ''hash'' @ js '':'' @ quoted ''0000'' @ js '','' @
         quoted ''lastUpdated'' @ js '':'' @ quoted ''2025-11-01T00:00:00.000Z'' @ js ''}}}''"

definition sample_parse :: "jsstring \<Rightarrow> json option" where
  "sample_parse t =
     (if t = js ''null'' then Some JNull
      else if t = files_number_text then Some (JObj [(js ''files'', JNum 5)])
      else if t = previous_manifest_text then Some previous_manifest
      else None)"

definition second_run :: world where
  "second_run =
     (sample_world (\<lambda>u. Response 200 (Some plain_body)) sample_parse)
       \<lparr>toISOString := (\<lambda>k. js ''2026-01-01T00:00:0'' @ decimal k @ js ''.000Z'')\<rparr>"

definition page_changed :: "world \<Rightarrow> json \<Rightarrow> DocPage \<Rightarrow> bool" where
  "page_changed w m page =
     (case doc_fetched API_BASE_URL w (slug page) of
        None \<Rightarrow> False
      | Some content \<Rightarrow>
          (case manifest_files_at m (outputPath page) of
             Inl e \<Rightarrow> False
           | Inr old \<Rightarrow> \<not> (truthy old \<and> hash_equals old (hashContent w content))))"

definition agents_doc :: DocPath where
  "agents_doc = \<lparr>src = js ''AGENTS.md'', dest = js ''agents-md.md''\<rparr>"

definition changelog_doc :: DocPath where
  "changelog_doc = \<lparr>src = js ''CHANGELOG.md'', dest = js ''changelog.md''\<rparr>"

definition codex_previous_manifest :: json where
  "codex_previous_manifest =
     JObj [(js ''lastSync'', JStr (js ''2025-12-01T00:00:00.000Z'')),
           (js ''sourceRepo'', JStr (js ''https://github.com/openai/codex.git'')),
           (js ''sourceCommit'', JStr (js ''0123456789abcdef'')),
           (js ''files'',
            JObj [(js ''readme.md'',
                   JObj [(js ''hash'', JStr plain_body),
                         (js ''lastUpdated'', JStr (js ''2025-12-01T00:00:00.000Z''))]),
                  (js ''agents-md.md'',
                   JObj [(js ''hash'', JStr (js ''0000'')),
                         (js ''lastUpdated'', JStr (js ''2025-11-01T00:00:00.000Z''))])])]"

definition cloned :: "jsstring \<rightharpoonup> jsstring" where
  "cloned = [js ''/tmp/openai-codex-sync/README.md'' \<mapsto> plain_body,
             js ''/tmp/openai-codex-sync/AGENTS.md'' \<mapsto> plain_body,
             js ''/tmp/openai-codex-sync/CHANGELOG.md'' \<mapsto> plain_body]"

definition disk_full :: world where
  "disk_full = second_run\<lparr>write_fails := (\<lambda>p. True)\<rparr>"


section \<open>String operations\<close>

lemma startsWith_iff: "startsWith s p \<longleftrightarrow> (\<exists>b. s = p @ b)"
  unfolding startsWith_def
  by (metis append_eq_conv_conj append_take_drop_id)

lemma str_includes_iff: "str_includes s p \<longleftrightarrow> (\<exists>a b. s = a @ p @ b)"
proof (induction s)
  case Nil
  then show ?case by auto
next
  case (Cons c cs)
  show ?case
  proof
    assume "str_includes (c # cs) p"
    then consider "startsWith (c # cs) p" | "str_includes cs p" by auto
    then show "\<exists>a b. c # cs = a @ p @ b"
    proof cases
      case 1
      then obtain b where "c # cs = p @ b" using startsWith_iff by blast
      then have "c # cs = [] @ p @ b" by simp
      then show ?thesis by blast
    next
      case 2
      then obtain a b where "cs = a @ p @ b" using Cons.IH by blast
      then have "c # cs = (c # a) @ p @ b" by simp
      then show ?thesis by blast
    qed
  next
    assume "\<exists>a b. c # cs = a @ p @ b"
    then obtain a b where ab: "c # cs = a @ p @ b" by blast
    show "str_includes (c # cs) p"
    proof (cases a)
      case Nil
      with ab have "startsWith (c # cs) p" using startsWith_iff by auto
      then show ?thesis by simp
    next
      case (Cons x a')
      with ab have "cs = a' @ p @ b" by simp
      then have "str_includes cs p" using Cons.IH by blast
      then show ?thesis by simp
    qed
  qed
qed


section \<open>The direct-URL fetch contract\<close>

text \<open>
  Claim C6. For every slug, \<open>fetchDoc\<close> returns (it neither throws nor exits), and what
  it returns is the body exactly when the response has a status from 200 to 299 and a
  body that does not begin with \<open><!DOCTYPE\<close>, contains \<open><html\<close> nowhere and has at
  least 50 code units. In every other case (another status, such a body, a request or
  a body read that fails) the result is \<open>null\<close>.
\<close>

theorem fetchDoc_contract:
  "\<exists>r s'. fetchDoc base w sl s = Return r s' \<and>
      (\<forall>body. (r = Some body) =
         (\<exists>status. http w (base @ js ''/'' @ sl @ js ''.md'') = Response status (Some body)
            \<and> 200 \<le> status \<and> status \<le> 299
            \<and> \<not> (\<exists>b. body = js ''<!DOCTYPE'' @ b)
            \<and> \<not> (\<exists>a b. body = a @ js ''<html'' @ b)
            \<and> 50 \<le> length body))"
  unfolding fetchDoc_def Let_def response_ok_def
  by (auto simp: startsWith_iff str_includes_iff split: response.splits option.splits)


section \<open>HTML detection by substring\<close>

text \<open>
  Claim C9. The HTML test of \<open>fetchDoc\<close> looks for the substring \<open><html\<close> anywhere
  in the body: whenever the body of the response contains it, whatever the status and
  the rest of the body, \<open>fetchDoc\<close> returns \<open>null\<close>, and the loops of the claude-api
  and claude-code jobs count the page as failed. The witness is a markdown sentence of
  61 code units that quotes the tag and does not begin with \<open><!DOCTYPE\<close>.
\<close>

theorem html_substring_rejected:
  assumes "http w (base @ js ''/'' @ slug page @ js ''.md'') = Response status (Some (a @ js ''<html'' @ b))"
  shows "(\<exists>s'. fetchDoc base w (slug page) s = Return None s') \<and>
         (base = API_BASE_URL \<longrightarrow>
            (\<exists>s'. api_page w isDryRun manifest page v s = Return (v\<lparr>failed := failed v + 1\<rparr>) s')) \<and>
         (base = CODE_BASE_URL \<longrightarrow>
            (\<exists>s'. code_page w isDryRun manifest page v s = Return (v\<lparr>failed := failed v + 1\<rparr>) s'))"
proof -
  have inc: "str_includes (a @ js ''<html'' @ b) (js ''<html'')"
    using str_includes_iff by blast
  have f: "\<exists>s'. fetchDoc base w (slug page) s0 = Return None s'" for s0
    using assms inc unfolding fetchDoc_def Let_def by auto
  then obtain s1 where s1:
    "fetchDoc base w (slug page) (emit (StdoutWrite (js ''Fetching '' @ slug page @ js ''...'')) s) = Return None s1"
    by blast
  have "api_page w isDryRun manifest page v s = Return (v\<lparr>failed := failed v + 1\<rparr>) s1" if "base = API_BASE_URL"
    using s1 that unfolding api_page_def by simp
  moreover have "code_page w isDryRun manifest page v s = Return (v\<lparr>failed := failed v + 1\<rparr>) s1" if "base = CODE_BASE_URL"
    using s1 that unfolding code_page_def by simp
  ultimately show ?thesis using f by blast
qed

theorem html_substring_rejected_witness:
  "50 \<le> length quoting_body \<and> \<not> startsWith quoting_body (js ''<!DOCTYPE'') \<and>
   (\<exists>s'. fetchDoc API_BASE_URL (sample_world (\<lambda>u. Response 200 (Some quoting_body)) (\<lambda>t. None))
            (slug intro_page) (start Map.empty) = Return None s') \<and>
   (\<exists>s'. api_page (sample_world (\<lambda>u. Response 200 (Some quoting_body)) (\<lambda>t. None)) False
            (empty_manifest API_BASE_URL) intro_page init_vars (start Map.empty)
          = Return (init_vars\<lparr>failed := failed init_vars + 1\<rparr>) s') \<and>
   (\<exists>s'. code_page (sample_world (\<lambda>u. Response 200 (Some quoting_body)) (\<lambda>t. None)) False
            (empty_manifest CODE_BASE_URL) intro_page init_vars (start Map.empty)
          = Return (init_vars\<lparr>failed := failed init_vars + 1\<rparr>) s')"
proof -
  let ?w = "sample_world (\<lambda>u. Response 200 (Some quoting_body)) (\<lambda>t. None)"
  have q: "quoting_body = js ''To build a page, start with an '' @ js ''<html'' @ js ''> element and add a body.''"
    by (simp add: quoting_body_def js_def)
  have h: "http ?w (base @ js ''/'' @ slug intro_page @ js ''.md'')
           = Response 200 (Some (js ''To build a page, start with an '' @ js ''<html'' @ js ''> element and add a body.''))"
    for base
    by (simp add: sample_world_def q)
  have l: "50 \<le> length quoting_body \<and> \<not> startsWith quoting_body (js ''<!DOCTYPE'')"
    by (simp add: quoting_body_def js_def startsWith_def)
  show ?thesis
    using html_substring_rejected [OF h, of API_BASE_URL "start Map.empty" False "empty_manifest API_BASE_URL" init_vars]
          html_substring_rejected [OF h, of CODE_BASE_URL "start Map.empty" False "empty_manifest CODE_BASE_URL" init_vars]
          l
    by simp
qed


section \<open>Loading the manifest\<close>

text \<open>
  Claim C5, as stated, has the warning emitted in every fallback, also when the file is
  absent. On the sample disk with no manifest file \<open>loadManifest\<close> logs nothing.
\<close>

theorem loadManifest_absent_no_warning:
  "fs (start Map.empty) (MANIFEST_FILE (sample_world (\<lambda>u. NetworkFailure) (\<lambda>t. None))) = None \<and>
   events (final_state (loadManifest API_BASE_URL (sample_world (\<lambda>u. NetworkFailure) (\<lambda>t. None)) (start Map.empty))) = []"
  by (simp add: loadManifest_def existsSync_def start_def)

text \<open>
  Claim C5, amended. \<open>loadManifest\<close> never throws. When the manifest file is absent it
  returns the empty manifest (empty \<open>lastSync\<close>, the configured base URL, no files)
  and logs nothing. When the file is present but cannot be read or does not parse it
  returns the same empty manifest after one \<open>console.warn\<close>.
\<close>

theorem loadManifest_fallback:
  "(fs s (MANIFEST_FILE w) = None \<longrightarrow> loadManifest base w s = Return (empty_manifest base) s) \<and>
   (fs s (MANIFEST_FILE w) = Some c \<and> (read_fails w (MANIFEST_FILE w) \<or> JSON_parse w c = None) \<longrightarrow>
      loadManifest base w s =
        Return (empty_manifest base) (emit (ConsoleWarn (js ''Failed to load manifest, starting fresh'')) s)) \<and>
   (\<exists>m s'. loadManifest base w s = Return m s')"
  unfolding loadManifest_def existsSync_def readFile_def
  by (auto split: option.splits)

theorem loadManifest_fallback_witness:
  "fs (start Map.empty) (MANIFEST_FILE (sample_world (\<lambda>u. NetworkFailure) (\<lambda>t. None))) = None \<and>
   loadManifest API_BASE_URL (sample_world (\<lambda>u. NetworkFailure) (\<lambda>t. None)) (start Map.empty)
     = Return (empty_manifest API_BASE_URL) (start Map.empty) \<and>
   fs (start [js ''resources/manifest.json'' \<mapsto> js ''{'']) (MANIFEST_FILE (sample_world (\<lambda>u. NetworkFailure) (\<lambda>t. None)))
     = Some (js ''{'') \<and>
   JSON_parse (sample_world (\<lambda>u. NetworkFailure) (\<lambda>t. None)) (js ''{'') = None \<and>
   loadManifest API_BASE_URL (sample_world (\<lambda>u. NetworkFailure) (\<lambda>t. None)) (start [js ''resources/manifest.json'' \<mapsto> js ''{''])
     = Return (empty_manifest API_BASE_URL)
         (emit (ConsoleWarn (js ''Failed to load manifest, starting fresh'')) (start [js ''resources/manifest.json'' \<mapsto> js ''{'']))"
proof -
  let ?w = "sample_world (\<lambda>u. NetworkFailure) (\<lambda>t. None)"
  have a: "fs (start Map.empty) (MANIFEST_FILE ?w) = None"
    by (simp add: start_def)
  have b: "fs (start [js ''resources/manifest.json'' \<mapsto> js ''{'']) (MANIFEST_FILE ?w) = Some (js ''{'')"
    by (simp add: start_def MANIFEST_FILE_def sample_world_def js_def)
  have c: "JSON_parse ?w (js ''{'') = None"
    by (simp add: sample_world_def)
  show ?thesis
    using loadManifest_fallback [of "start Map.empty" ?w API_BASE_URL "js ''{''"]
          loadManifest_fallback [of "start [js ''resources/manifest.json'' \<mapsto> js ''{'']" ?w API_BASE_URL "js ''{''"]
          a b c
    by simp
qed


section \<open>Markdown post-processing\<close>

lemma takeWhile_newline_run:
  "b = [] \<or> hd b \<noteq> NL \<Longrightarrow> takeWhile (\<lambda>x. x = NL) (replicate k NL @ b) = replicate k NL"
  by (induction k) (cases b; auto)+

lemma dropWhile_newline_run:
  "b = [] \<or> hd b \<noteq> NL \<Longrightarrow> dropWhile (\<lambda>x. x = NL) (replicate k NL @ b) = b"
  by (induction k) (cases b; auto)+

lemma collapse_run:
  assumes "b = [] \<or> hd b \<noteq> NL"
  shows "collapse_newlines (replicate n NL @ b) =
           (if 3 \<le> n then [NL, NL] else replicate n NL) @ collapse_newlines b"
proof (cases "3 \<le> n")
  case True
  then obtain k where n: "n = Suc k" by (cases n) auto
  have "collapse_newlines (NL # (replicate k NL @ b)) =
          [NL, NL] @ collapse_newlines (dropWhile (\<lambda>x. x = NL) (replicate k NL @ b))"
    using takeWhile_newline_run [OF assms, of "Suc k"] True n
    by (subst collapse_newlines.simps) simp
  then show ?thesis using True n dropWhile_newline_run [OF assms, of k] by simp
next
  case False
  have one: "collapse_newlines (NL # b) = NL # collapse_newlines b"
    using takeWhile_newline_run [OF assms, of 1] by (subst collapse_newlines.simps) simp
  have two: "collapse_newlines (NL # NL # b) = NL # collapse_newlines (NL # b)"
    using takeWhile_newline_run [OF assms, of 2]
    by (subst collapse_newlines.simps) (simp add: numeral_2_eq_2)
  from False consider "n = 0" | "n = 1" | "n = 2" by linarith
  then show ?thesis
  proof cases
    case 1 then show ?thesis by simp
  next
    case 2 then show ?thesis using one by simp
  next
    case 3 then show ?thesis using one two by (simp add: numeral_2_eq_2)
  qed
qed

lemma collapse_append:
  assumes "a = [] \<or> last a \<noteq> NL"
  shows "collapse_newlines (a @ r) = collapse_newlines a @ collapse_newlines r"
  using assms
proof (induction a rule: collapse_newlines.induct)
  case 1
  then show ?case by simp
next
  case (2 c cs)
  from "2.prems" have lst: "last (c # cs) \<noteq> NL" by simp
  have "last (c # cs) \<in> set (c # cs)" by (rule last_in_set) simp
  with lst have ex: "\<exists>x\<in>set (c # cs). \<not> x = NL" by blast
  have tw: "takeWhile (\<lambda>x. x = NL) ((c # cs) @ r) = takeWhile (\<lambda>x. x = NL) (c # cs)"
    using ex takeWhile_append1 [of _ "c # cs" "\<lambda>x. x = NL" r] by blast
  show ?case
  proof (cases "3 \<le> length (takeWhile (\<lambda>x. x = NL) (c # cs))")
    case True
    then have c: "c = NL" by (auto split: if_splits)
    with lst have cs: "cs \<noteq> []" "last cs \<noteq> NL" by (auto split: if_splits)
    have "last cs \<in> set cs" using cs(1) by (rule last_in_set)
    with cs have ex': "\<exists>x\<in>set cs. \<not> x = NL" by blast
    have dw: "dropWhile (\<lambda>x. x = NL) (cs @ r) = dropWhile (\<lambda>x. x = NL) cs @ r"
      using ex' dropWhile_append1 [of _ cs "\<lambda>x. x = NL" r] by blast
    have ne: "dropWhile (\<lambda>x. x = NL) cs \<noteq> []"
      using ex' by (simp add: dropWhile_eq_Nil_conv)
    have "cs = takeWhile (\<lambda>x. x = NL) cs @ dropWhile (\<lambda>x. x = NL) cs" by simp
    then have "last cs = last (dropWhile (\<lambda>x. x = NL) cs)"
      using ne by (metis last_appendR)
    with cs ne have pre: "dropWhile (\<lambda>x. x = NL) cs = [] \<or> last (dropWhile (\<lambda>x. x = NL) cs) \<noteq> NL"
      by simp
    have l: "collapse_newlines ((c # cs) @ r) = [NL, NL] @ collapse_newlines (dropWhile (\<lambda>x. x = NL) cs @ r)"
      using True tw dw by (simp del: takeWhile.simps dropWhile.simps)
    have rr: "collapse_newlines (c # cs) = [NL, NL] @ collapse_newlines (dropWhile (\<lambda>x. x = NL) cs)"
      using True by (simp del: takeWhile.simps dropWhile.simps)
    from "2.IH"(1) [OF True pre] l rr show ?thesis by simp
  next
    case False
    have pre: "cs = [] \<or> last cs \<noteq> NL" using lst by (auto split: if_splits)
    have l: "collapse_newlines ((c # cs) @ r) = c # collapse_newlines (cs @ r)"
      using False tw by (simp del: takeWhile.simps dropWhile.simps)
    have rr: "collapse_newlines (c # cs) = c # collapse_newlines cs"
      using False by (simp del: takeWhile.simps dropWhile.simps)
    from "2.IH"(2) [OF False pre] l rr show ?thesis by simp
  qed
qed

lemma collapse_no_newline: "NL \<notin> set a \<Longrightarrow> collapse_newlines a = a"
  by (induction a) auto

text \<open>
  Claim C8, as stated, collapses runs of three or more blank lines. Two blank lines
  between \<open>a\<close> and \<open>b\<close> are three newlines: \<open>cleanMarkdown\<close> collapses them, the
  transformation the claim describes leaves them alone, and the two documents differ.
\<close>

theorem cleanMarkdown_two_blank_lines:
  "fst (cleanMarkdown (sample_world (\<lambda>u. NetworkFailure) (\<lambda>t. None)) (js ''a'' @ [NL, NL, NL] @ js ''b'')
          (js ''T'') (js ''U'') (start Map.empty))
     \<noteq> frontmatter (js ''T'') (js ''U'') (js ''2026-01-01'') @ spec_cleaned (js ''a'' @ [NL, NL, NL] @ js ''b'')"
  by (simp add: cleanMarkdown_def Date_toISOString_def start_def sample_world_def spec_cleaned_def
        trim_def is_js_space_def NL_def js_def)

text \<open>
  Claim C8, amended. The emitted document is the header block (title, source URL, the
  date part of the clock reading) followed by the trimmed result of
  \<open>collapse_newlines\<close>, and \<open>collapse_newlines\<close> replaces every maximal run of three or
  more newline characters (two or more empty lines) by exactly two (one empty line):
  a run of \<open>n\<close> newlines between a text that does not end and a text that does not
  begin with a newline becomes two newlines when \<open>n\<close> is at least 3 and is kept
  otherwise, and a text without newlines is kept.
\<close>

theorem cleanMarkdown_postprocessing:
  assumes "a = [] \<or> last a \<noteq> NL" and "b = [] \<or> hd b \<noteq> NL" and "NL \<notin> set c"
  shows "fst (cleanMarkdown w markdown t u s) =
           frontmatter t u (takeWhile (\<lambda>x. x \<noteq> 0x54) (toISOString w (clk s)))
             @ trim (collapse_newlines markdown) \<and>
         collapse_newlines (a @ replicate n NL @ b) =
           collapse_newlines a @ (if 3 \<le> n then [NL, NL] else replicate n NL) @ collapse_newlines b \<and>
         collapse_newlines c = c"
  using collapse_append [OF assms(1)] collapse_run [OF assms(2)] collapse_no_newline [OF assms(3)]
  by (simp add: cleanMarkdown_def Date_toISOString_def)

theorem cleanMarkdown_postprocessing_witness:
  "fst (cleanMarkdown (sample_world (\<lambda>u. NetworkFailure) (\<lambda>t. None)) (js ''a'' @ replicate 3 NL @ js ''b'')
          (js ''T'') (js ''U'') (start Map.empty))
     = frontmatter (js ''T'') (js ''U'') (js ''2026-01-01'') @ js ''a'' @ [NL, NL] @ js ''b'' \<and>
   collapse_newlines (js ''a'' @ replicate 3 NL @ js ''b'') = js ''a'' @ [NL, NL] @ js ''b''"
proof -
  have a: "js ''a'' = [] \<or> last (js ''a'') \<noteq> NL" and b: "js ''b'' = [] \<or> hd (js ''b'') \<noteq> NL"
    and c: "NL \<notin> set (js ''a'')" and c': "NL \<notin> set (js ''b'')"
    by (simp_all add: js_def NL_def)
  have d: "takeWhile (\<lambda>x. x \<noteq> 0x54) (toISOString (sample_world (\<lambda>u. NetworkFailure) (\<lambda>t. None)) (clk (start Map.empty)))
             = js ''2026-01-01''"
    by (simp add: sample_world_def js_def)
  have e: "trim (js ''a'' @ [NL, NL] @ js ''b'') = js ''a'' @ [NL, NL] @ js ''b''"
    by (simp add: trim_def is_js_space_def js_def NL_def)
  show ?thesis
    using cleanMarkdown_postprocessing [OF a b c, of "sample_world (\<lambda>u. NetworkFailure) (\<lambda>t. None)"
            "js ''a'' @ replicate 3 NL @ js ''b''" "js ''T''" "js ''U''" "start Map.empty" 3]
          collapse_no_newline [OF c] collapse_no_newline [OF c'] d e
    by simp
qed


section \<open>The loop of the claude-api job\<close>

lemma fetchDoc_eq:
  "fetchDoc base w sl s = Return (doc_fetched base w sl) (s\<lparr>events := events s @ fetchDoc_events base w sl\<rparr>)"
  unfolding doc_fetched_def fetchDoc_events_def fetchDoc_def Let_def emit_def start_def
  by (auto split: response.splits option.splits)

lemma fetchDoc_events_shape:
  "\<exists>ev. fetchDoc_events base w sl = HttpGet (base @ js ''/'' @ sl @ js ''.md'') # ev
     \<and> (\<forall>u. HttpGet u \<notin> set ev) \<and> (\<forall>p c. WriteFile p c \<notin> set ev) \<and> (\<forall>p. MkDir p \<notin> set ev)
     \<and> (doc_fetched base w sl \<noteq> None \<longrightarrow> ev = [])"
  unfolding doc_fetched_def fetchDoc_events_def fetchDoc_def Let_def emit_def start_def
  by (auto split: response.splits option.splits)

lemma api_page_events_eq:
  "events (final_state (api_page w d m p v s)) = events s @ api_page_events w d m p"
  unfolding api_page_events_def api_page_def fetchDoc_eq
  by (auto simp: emit_def start_def Let_def mkdir_def writeFile_def Date_toISOString_def
           split: option.splits sum.splits if_splits)

lemma doc_fetched_Some:
  "doc_fetched base w sl = Some c \<Longrightarrow> 50 \<le> length c"
  unfolding doc_fetched_def fetchDoc_def Let_def
  by (auto split: response.splits option.splits if_splits)

lemma api_page_not_Exit: "api_page w d m p v s \<noteq> Exit n t"
  unfolding api_page_def fetchDoc_eq
  by (auto simp: Let_def mkdir_def writeFile_def Date_toISOString_def
           split: option.splits sum.splits if_splits)


lemma api_page_dry_fs: "fs (final_state (api_page w True m p v s)) = fs s"
  unfolding api_page_def fetchDoc_eq
  by (auto simp: Let_def emit_def Date_toISOString_def
           split: option.splits sum.splits if_splits)


lemma api_page_other_key:
  "api_page w d m p v s = Return v' s' \<Longrightarrow> k \<noteq> outputPath p \<Longrightarrow>
     map_of (newFiles v') k = map_of (newFiles v) k"
  unfolding api_page_def fetchDoc_eq
  by (auto simp: Let_def mkdir_def writeFile_def Date_toISOString_def assign_def update_conv'
           split: option.splits sum.splits if_splits)



lemma api_pages_dry_fs: "fs (final_state (api_pages w True m ps v s)) = fs s"
proof (induction ps arbitrary: v s)
  case Nil
  then show ?case by simp
next
  case (Cons p ps)
  then show ?case
    using api_page_dry_fs [of w m p v s] by (cases "api_page w True m p v s") auto
qed

lemma api_pages_events:
  "api_pages w d m ps v s = Return v' s' \<Longrightarrow>
     events s' = events s @ concat (map (api_page_events w d m) ps)"
proof (induction ps arbitrary: v s)
  case Nil
  then show ?case by simp
next
  case (Cons p ps)
  then show ?case
    using api_page_events_eq [of w d m p v s] by (cases "api_page w d m p v s") auto
qed

lemma api_pages_events_prefix:
  "\<exists>n\<le>length ps. events (final_state (api_pages w d m ps v s))
                     = events s @ concat (map (api_page_events w d m) (take n ps))"
proof (induction ps arbitrary: v s)
  case Nil
  then show ?case by simp
next
  case (Cons p ps)
  show ?case
  proof (cases "api_page w d m p v s")
    case (Return v1 s1)
    obtain n where n: "n \<le> length ps"
      "events (final_state (api_pages w d m ps v1 s1)) = events s1 @ concat (map (api_page_events w d m) (take n ps))"
      using Cons.IH by blast
    have "events s1 = events s @ api_page_events w d m p"
      using api_page_events_eq [of w d m p v s] Return by simp
    with n Return have "events (final_state (api_pages w d m (p # ps) v s))
        = events s @ concat (map (api_page_events w d m) (take (Suc n) (p # ps)))" by simp
    moreover have "Suc n \<le> length (p # ps)" using n by simp
    ultimately show ?thesis by blast
  next
    case (Throw e s1)
    then have "events (final_state (api_pages w d m (p # ps) v s))
        = events s @ concat (map (api_page_events w d m) (take 1 (p # ps)))"
      using api_page_events_eq [of w d m p v s] by simp
    moreover have "1 \<le> length (p # ps)" by simp
    ultimately show ?thesis by blast
  next
    case (Exit n s1)
    then show ?thesis using api_page_not_Exit by blast
  qed
qed

lemma api_pages_other_key:
  "api_pages w d m ps v s = Return v' s' \<Longrightarrow> k \<notin> outputPath ` set ps \<Longrightarrow>
     map_of (newFiles v') k = map_of (newFiles v) k"
proof (induction ps arbitrary: v s)
  case Nil
  then show ?case by simp
next
  case (Cons p ps)
  then show ?case
    using api_page_other_key [of w d m p v s _ _ k] by (cases "api_page w d m p v s") auto
qed

lemma loadManifest_eq:
  "loadManifest base w s =
     Return (manifest_loaded base w (fs s)) (s\<lparr>events := events s @ loadManifest_events base w (fs s)\<rparr>)"
  unfolding manifest_loaded_def loadManifest_events_def loadManifest_def existsSync_def readFile_def
            emit_def start_def
  by (auto split: option.splits)


lemma mkdirs_Return:
  "mkdirs w ds s = Return u s' \<Longrightarrow> s' = s\<lparr>events := events s @ map MkDir ds\<rparr>"
proof (induction ds arbitrary: s)
  case Nil
  then show ?case by simp
next
  case (Cons d ds)
  from Cons.prems have nf: "\<not> mkdir_fails w d" and r: "mkdirs w ds (emit (MkDir d) s) = Return u s'"
    by (auto simp: mkdir_def split: if_splits)
  from Cons.IH [OF r] show ?case by (simp add: emit_def)
qed

lemma mkdirs_final:
  "\<exists>n\<le>length ds. final_state (mkdirs w ds s) = s\<lparr>events := events s @ map MkDir (take n ds)\<rparr>"
proof (induction ds arbitrary: s)
  case Nil
  then show ?case by simp
next
  case (Cons d ds)
  show ?case
  proof (cases "mkdir_fails w d")
    case True
    then have "final_state (mkdirs w (d # ds) s) = s\<lparr>events := events s @ map MkDir (take 0 (d # ds))\<rparr>"
      by (simp add: mkdir_def)
    then show ?thesis by blast
  next
    case False
    obtain n where n: "n \<le> length ds"
      "final_state (mkdirs w ds (emit (MkDir d) s))
         = (emit (MkDir d) s)\<lparr>events := events (emit (MkDir d) s) @ map MkDir (take n ds)\<rparr>"
      using Cons.IH by blast
    then have "final_state (mkdirs w (d # ds) s) = s\<lparr>events := events s @ map MkDir (take (Suc n) (d # ds))\<rparr>"
      using False by (simp add: mkdir_def emit_def)
    moreover have "Suc n \<le> length (d # ds)" using n by simp
    ultimately show ?thesis by blast
  qed
qed

lemma mkdirs_not_Exit: "mkdirs w ds s \<noteq> Exit n t"
  by (induction ds arbitrary: s) (auto simp: mkdir_def)



section \<open>Dry runs of the claude-api job\<close>

lemma filter_concat_Nil:
  "(\<And>x. filter P (f x) = []) \<Longrightarrow> filter P (concat (map f xs)) = []"
  by (induction xs) auto








section \<open>The two phases of the gemini-dev job\<close>

lemma fetchPage_result_events:
  "filter is_write (snd (fetchPage_result w p)) = [] \<and> filter is_request (snd (fetchPage_result w p)) = []"
  unfolding fetchPage_result_def by (auto split: response.splits option.splits)

lemma filter_write_requests: "filter is_write (map (\<lambda>page. HttpGet (url page)) ps) = []"
  by (induction ps) auto

lemma filter_request_requests:
  "filter is_request (map (\<lambda>page. HttpGet (url page)) ps) = map (\<lambda>page. HttpGet (url page)) ps"
  by (induction ps) auto

lemma fetch_batch_frame:
  "fetch_batch w batch s = (rs, s') \<Longrightarrow>
     fs s' = fs s \<and> clk s' = clk s \<and> rs = map (\<lambda>page. (page, fst (fetchPage_result w page))) batch \<and>
     (\<exists>ev. events s' = events s @ ev \<and> filter is_write ev = [] \<and>
           filter is_request ev = map (\<lambda>page. HttpGet (url page)) batch)"
  unfolding fetch_batch_def
  by (auto simp: filter_write_requests filter_request_requests filter_concat_Nil fetchPage_result_events)

lemma fetch_batches_frame:
  "fetch_batches w pages i results s = (rs, s') \<Longrightarrow>
     fs s' = fs s \<and> clk s' = clk s \<and>
     rs = results @ map (\<lambda>page. (page, fst (fetchPage_result w page))) (drop i pages) \<and>
     (\<exists>ev. events s' = events s @ ev \<and> filter is_write ev = [] \<and>
           filter is_request ev = map (\<lambda>page. HttpGet (url page)) (drop i pages))"
proof (induction w pages i results s arbitrary: rs s' rule: fetch_batches.induct)
  case (1 w pages i results s)
  show ?case
  proof (cases "i < length pages")
    case False
    with "1.prems" show ?thesis by (simp add: fetch_batches.simps)
  next
    case True
    obtain b s1 where b: "fetch_batch w (take concurrency (drop i pages)) s = (b, s1)"
      by (cases "fetch_batch w (take concurrency (drop i pages)) s") auto
    with True "1.prems" have r: "fetch_batches w pages (i + concurrency) (results @ b) s1 = (rs, s')"
      by (simp add: fetch_batches.simps [of w pages i])
    from "1.IH" [OF True b [symmetric] refl r]
    have ih: "fs s' = fs s1" "clk s' = clk s1"
      "rs = (results @ b) @ map (\<lambda>page. (page, fst (fetchPage_result w page))) (drop (i + concurrency) pages)"
      and "\<exists>ev. events s' = events s1 @ ev \<and> filter is_write ev = [] \<and>
             filter is_request ev = map (\<lambda>page. HttpGet (url page)) (drop (i + concurrency) pages)"
      by auto
    then obtain ev2 where ev2: "events s' = events s1 @ ev2" "filter is_write ev2 = []"
      "filter is_request ev2 = map (\<lambda>page. HttpGet (url page)) (drop (i + concurrency) pages)" by blast
    from fetch_batch_frame [OF b] obtain ev1 where
      f: "fs s1 = fs s" "clk s1 = clk s" "b = map (\<lambda>page. (page, fst (fetchPage_result w page))) (take concurrency (drop i pages))"
      and ev1: "events s1 = events s @ ev1" "filter is_write ev1 = []"
        "filter is_request ev1 = map (\<lambda>page. HttpGet (url page)) (take concurrency (drop i pages))" by blast
    have split: "drop i pages = take concurrency (drop i pages) @ drop (i + concurrency) pages"
      by (metis add.commute append_take_drop_id drop_drop)
    have A: "rs = results @ map (\<lambda>page. (page, fst (fetchPage_result w page))) (drop i pages)"
      using ih(3) f(3) by (subst split) simp
    have B: "events s' = events s @ (ev1 @ ev2)" using ev1 ev2 by simp
    have C: "filter is_write (ev1 @ ev2) = []" using ev1 ev2 by simp
    have D: "filter is_request (ev1 @ ev2) = map (\<lambda>page. HttpGet (url page)) (drop i pages)"
      using ev1 ev2 by (subst split) simp
    have E: "fs s' = fs s" "clk s' = clk s" using ih(1,2) f(1,2) by simp_all
    from B C D have "\<exists>ev. events s' = events s @ ev \<and> filter is_write ev = [] \<and>
           filter is_request ev = map (\<lambda>page. HttpGet (url page)) (drop i pages)" by blast
    with A E show ?thesis by blast
  qed
qed

lemma process_result_Return: "\<exists>n' s'. process_result w env out d r n s = Return n' s'"
  unfolding process_result_def gemini_catch_def
  by (auto simp: Let_def mkdir_def writeFile_def cleanMarkdown_def Date_toISOString_def
           split: prod.splits option.splits if_splits res.splits)

lemma process_result_events:
  "process_result w env out d r n s = Return n' s' \<Longrightarrow>
     \<exists>ev. events s' = events s @ ev \<and> filter is_request ev = [] \<and>
          (d \<longrightarrow> filter is_write ev = [] \<and> fs s' = fs s)"
  unfolding process_result_def gemini_catch_def
  by (auto simp: Let_def emit_def mkdir_def writeFile_def cleanMarkdown_def Date_toISOString_def
           split: prod.splits option.splits if_splits res.splits)


lemma process_results_Return: "\<exists>n' s'. process_results w env out d rs n s = Return n' s'"
proof (induction rs arbitrary: n s)
  case Nil
  then show ?case by simp
next
  case (Cons r rs)
  obtain n1 s1 where "process_result w env out d r n s = Return n1 s1"
    using process_result_Return by blast
  then show ?case using Cons.IH [of n1 s1] by simp
qed

lemma process_results_events:
  "process_results w env out d rs n s = Return n' s' \<Longrightarrow>
     \<exists>ev. events s' = events s @ ev \<and> filter is_request ev = [] \<and>
          (d \<longrightarrow> filter is_write ev = [] \<and> fs s' = fs s)"
proof (induction rs arbitrary: n s)
  case Nil
  then show ?case by simp
next
  case (Cons r rs)
  obtain n1 s1 where r1: "process_result w env out d r n s = Return n1 s1"
    using process_result_Return by blast
  with Cons.prems have r2: "process_results w env out d rs n1 s1 = Return n' s'" by simp
  from process_result_events [OF r1] obtain ev1 where
    e1: "events s1 = events s @ ev1" "filter is_request ev1 = []"
        "d \<longrightarrow> filter is_write ev1 = [] \<and> fs s1 = fs s" by blast
  from Cons.IH [OF r2] obtain ev2 where
    e2: "events s' = events s1 @ ev2" "filter is_request ev2 = []"
        "d \<longrightarrow> filter is_write ev2 = [] \<and> fs s' = fs s1" by blast
  have "events s' = events s @ (ev1 @ ev2)" using e1 e2 by simp
  moreover have "filter is_request (ev1 @ ev2) = []" using e1 e2 by simp
  moreover have "d \<longrightarrow> filter is_write (ev1 @ ev2) = [] \<and> fs s' = fs s" using e1 e2 by simp
  ultimately show ?case by blast
qed





lemma filter_write_Nil_WriteFile: "filter is_write ev = [] \<Longrightarrow> WriteFile p c \<notin> set ev"
  by (auto simp: filter_empty_conv)

lemma syncDocs_requests_first:
  "\<exists>a b. events (final_state (syncDocs w env pages out d disk)) = a @ b \<and>
         (\<forall>p c. WriteFile p c \<notin> set a) \<and> filter is_request b = [] \<and>
         (\<forall>n s. syncDocs w env pages out d disk = Return n s \<longrightarrow>
                filter is_request a = map (\<lambda>page. HttpGet (url page)) pages)"
proof -
  let ?s0 = "\<lparr>events = ConsoleLog (js ''Syncing '' @ decimal (length pages) @ js '' documentation pages to '' @ out @ [NL])
                   # (if d then [ConsoleLog (js ''(dry run - no files will be written)'' @ [NL])] else []),
              fs = disk, clk = 0\<rparr>"
  let ?pre = "if d then Return () ?s0 else mkdirs w [out, path_join w out (js ''multimodal'')] ?s0"
  have pre_final: "\<exists>k. final_state ?pre = ?s0\<lparr>events := events ?s0 @ map MkDir (take k [out, path_join w out (js ''multimodal'')])\<rparr>"
  proof (cases d)
    case True
    then have "final_state ?pre = ?s0\<lparr>events := events ?s0 @ map MkDir (take 0 [out, path_join w out (js ''multimodal'')])\<rparr>"
      by simp
    then show ?thesis by blast
  next
    case False
    then show ?thesis
      using mkdirs_final [where ds = "[out, path_join w out (js ''multimodal'')]" and w = w and s = ?s0]
      by (auto simp del: mkdirs.simps)
  qed
  then obtain k where k: "final_state ?pre = ?s0\<lparr>events := events ?s0 @ map MkDir (take k [out, path_join w out (js ''multimodal'')])\<rparr>"
    by blast
  have nowf: "\<forall>p c. WriteFile p c \<notin> set (events (final_state ?pre))"
    and noreq: "filter is_request (events (final_state ?pre)) = []"
    unfolding k by (auto simp: filter_empty_conv)
  show ?thesis
  proof (cases ?pre)
    case (Return u s1)
    obtain rs s2 where f: "fetch_batches w pages 0 [] s1 = (rs, s2)"
      by (cases "fetch_batches w pages 0 [] s1") auto
    from fetch_batches_frame [OF f] obtain ev1 where
      s2: "events s2 = events s1 @ ev1" "filter is_write ev1 = []"
          "filter is_request ev1 = map (\<lambda>page. HttpGet (url page)) pages" by auto
    obtain n s3 where p: "process_results w env out d rs 0 s2 = Return n s3"
      using process_results_Return by blast
    from process_results_events [OF p] obtain ev2 where
      s3: "events s3 = events s2 @ ev2" "filter is_request ev2 = []" by auto
    let ?last = "ConsoleLog ([NL] @ js ''Synced '' @ decimal n @ js ''/'' @ decimal (length pages) @ js '' pages'')"
    have run: "syncDocs w env pages out d disk = Return n (emit ?last s3)"
      unfolding syncDocs_def Let_def using Return f p by simp
    have s1: "events s1 = events (final_state ?pre)" using Return by simp
    have "events (final_state (syncDocs w env pages out d disk)) = (events s1 @ ev1) @ (ev2 @ [?last])"
      using run s2 s3 by (simp add: emit_def)
    moreover have "\<forall>p c. WriteFile p c \<notin> set (events s1 @ ev1)"
      using nowf s1 s2(2) filter_write_Nil_WriteFile by auto
    moreover have "filter is_request (ev2 @ [?last]) = []" using s3 by simp
    moreover have "filter is_request (events s1 @ ev1) = map (\<lambda>page. HttpGet (url page)) pages"
      using noreq s1 s2 by simp
    ultimately show ?thesis by blast
  next
    case (Throw e s1)
    then have run: "syncDocs w env pages out d disk = Throw e s1"
      unfolding syncDocs_def Let_def by simp
    have "events (final_state (syncDocs w env pages out d disk)) = events s1 @ []"
      using run by simp
    moreover have "\<forall>p c. WriteFile p c \<notin> set (events s1)" using nowf Throw by simp
    ultimately show ?thesis using run by (metis filter.simps(1) res.distinct(1))
  next
    case (Exit n s1)
    then have False
      using mkdirs_not_Exit by (cases d) (auto simp del: mkdirs.simps)
    then show ?thesis ..
  qed
qed


lemma chunks_concat: "0 < n \<Longrightarrow> concat (chunks n xs) = xs"
proof (induction n xs rule: chunks.induct)
  case (1 n xs)
  then show ?case by (subst chunks.simps) auto
qed

lemma chunks_length: "b \<in> set (chunks n xs) \<Longrightarrow> b \<noteq> [] \<and> length b \<le> n"
proof (induction n xs rule: chunks.induct)
  case (1 n xs)
  from "1.prems" have ne: "\<not> (n = 0 \<or> xs = [])" by (subst (asm) chunks.simps) (auto split: if_splits)
  with "1.prems" have "b = take n xs \<or> b \<in> set (chunks n (drop n xs))"
    by (subst (asm) chunks.simps) auto
  then show ?case using "1.IH" [OF ne] ne by auto
qed

lemma fetch_batches_chunks:
  "fetch_batches w pages i results s =
     (results @ map (\<lambda>page. (page, fst (fetchPage_result w page))) (drop i pages),
      s\<lparr>events := events s @
           concat (map (\<lambda>batch. map (\<lambda>page. HttpGet (url page)) batch
                                 @ concat (map (\<lambda>page. snd (fetchPage_result w page)) batch))
                       (chunks 5 (drop i pages)))\<rparr>)"
proof (induction w pages i results s rule: fetch_batches.induct)
  case (1 w pages i results s)
  show ?case
  proof (cases "i < length pages")
    case False
    then show ?thesis by (simp add: fetch_batches.simps chunks.simps)
  next
    case True
    obtain b s1 where b: "fetch_batch w (take concurrency (drop i pages)) s = (b, s1)"
      by (cases "fetch_batch w (take concurrency (drop i pages)) s") auto
    then have b': "b = map (\<lambda>page. (page, fst (fetchPage_result w page))) (take 5 (drop i pages))"
      and s1: "s1 = s\<lparr>events := events s @ map (\<lambda>page. HttpGet (url page)) (take 5 (drop i pages))
                             @ concat (map (\<lambda>page. snd (fetchPage_result w page)) (take 5 (drop i pages)))\<rparr>"
      by (auto simp: fetch_batch_def concurrency_def)
    have ne: "drop i pages \<noteq> []" using True by simp
    have ch: "chunks 5 (drop i pages) = take 5 (drop i pages) # chunks 5 (drop (i + 5) pages)"
      using ne by (subst chunks.simps) (simp add: add.commute)
    have split: "drop i pages = take 5 (drop i pages) @ drop (i + 5) pages"
      by (metis add.commute append_take_drop_id drop_drop)
    have "fetch_batches w pages i results s = fetch_batches w pages (i + concurrency) (results @ b) s1"
      using True b by (simp add: fetch_batches.simps [of w pages i])
    also have "\<dots> = ((results @ b) @ map (\<lambda>page. (page, fst (fetchPage_result w page))) (drop (i + concurrency) pages),
      s1\<lparr>events := events s1 @
           concat (map (\<lambda>batch. map (\<lambda>page. HttpGet (url page)) batch
                                 @ concat (map (\<lambda>page. snd (fetchPage_result w page)) batch))
                       (chunks 5 (drop (i + concurrency) pages)))\<rparr>)"
      using "1.IH" [OF True b [symmetric] refl] .
    also have "\<dots> = (results @ map (\<lambda>page. (page, fst (fetchPage_result w page))) (drop i pages),
      s\<lparr>events := events s @
           concat (map (\<lambda>batch. map (\<lambda>page. HttpGet (url page)) batch
                                 @ concat (map (\<lambda>page. snd (fetchPage_result w page)) batch))
                       (chunks 5 (drop i pages)))\<rparr>)"
      unfolding ch b' s1 concurrency_def by (subst (3) split) simp
    finally show ?thesis .
  qed
qed

lemma written_paths_append: "written_paths (a @ b) = written_paths a @ written_paths b"
  by (induction a) (auto split: event.splits)

lemma written_paths_no_write: "filter is_write ev = [] \<Longrightarrow> written_paths ev = []"
proof (induction ev)
  case Nil
  then show ?case by simp
next
  case (Cons a ev)
  then show ?case by (cases a) (auto split: if_splits)
qed


lemma process_result_written:
  assumes "process_result w env out d r n s = Return n' s'"
  shows "n' = n + (if result_synced w env out d r then 1 else 0) \<and>
         written_paths (events s')
           = written_paths (events s)
             @ (if result_synced w env out d r \<and> \<not> d then [path_join w out (g_outputPath (fst r))] else [])"
  using assms unfolding process_result_def gemini_catch_def result_synced_def result_converts_def
  by (auto simp: Let_def emit_def mkdir_def writeFile_def cleanMarkdown_def Date_toISOString_def
                 written_paths_append
           split: prod.splits option.splits if_splits res.splits)

lemma process_results_written:
  assumes "process_results w env out d rs n s = Return n' s'"
  shows "n' = n + length (filter (result_synced w env out d) rs) \<and>
         written_paths (events s')
           = written_paths (events s)
             @ (if d then [] else map (\<lambda>r. path_join w out (g_outputPath (fst r)))
                                      (filter (result_synced w env out d) rs))"
  using assms
proof (induction rs arbitrary: n s)
  case Nil
  then show ?case by simp
next
  case (Cons r rs)
  obtain n1 s1 where r1: "process_result w env out d r n s = Return n1 s1"
    using process_result_Return by blast
  with Cons.prems have r2: "process_results w env out d rs n1 s1 = Return n' s'" by simp
  from process_result_written [OF r1] Cons.IH [OF r2] show ?case by auto
qed

lemma syncDocs_written:
  assumes "syncDocs w env pages out d disk = Return n s"
  shows "n = length (filter (\<lambda>page. result_synced w env out d (page, fst (fetchPage_result w page))) pages) \<and>
         written_paths (events s)
           = (if d then []
              else map (\<lambda>page. path_join w out (g_outputPath page))
                     (filter (\<lambda>page. result_synced w env out d (page, fst (fetchPage_result w page))) pages))"
proof -
  let ?s0 = "\<lparr>events = ConsoleLog (js ''Syncing '' @ decimal (length pages) @ js '' documentation pages to '' @ out @ [NL])
                   # (if d then [ConsoleLog (js ''(dry run - no files will be written)'' @ [NL])] else []),
              fs = disk, clk = 0\<rparr>"
  let ?pre = "if d then Return () ?s0 else mkdirs w [out, path_join w out (js ''multimodal'')] ?s0"
  from assms obtain s1 where pre: "?pre = Return () s1"
    unfolding syncDocs_def Let_def by (cases ?pre) auto
  have w1: "written_paths (events s1) = []"
  proof (cases d)
    case True
    with pre show ?thesis by auto
  next
    case False
    with pre have "mkdirs w [out, path_join w out (js ''multimodal'')] ?s0 = Return () s1" by simp
    from mkdirs_Return [OF this] False show ?thesis by simp
  qed
  obtain rs s2 where f: "fetch_batches w pages 0 [] s1 = (rs, s2)"
    by (cases "fetch_batches w pages 0 [] s1") auto
  from fetch_batches_frame [OF f] obtain ev1 where
    rs: "rs = map (\<lambda>page. (page, fst (fetchPage_result w page))) pages"
    and s2: "events s2 = events s1 @ ev1" "filter is_write ev1 = []" by auto
  have w2: "written_paths (events s2) = []"
    using w1 s2 written_paths_no_write by (simp add: written_paths_append)
  obtain n3 s3 where p: "process_results w env out d rs 0 s2 = Return n3 s3"
    using process_results_Return by blast
  have run: "syncDocs w env pages out d disk =
          Return n3 (emit (ConsoleLog ([NL] @ js ''Synced '' @ decimal n3 @ js ''/''
                                        @ decimal (length pages) @ js '' pages'')) s3)"
    unfolding syncDocs_def Let_def pre using f p by simp
  with assms have n: "n = n3" and s: "s = emit (ConsoleLog ([NL] @ js ''Synced '' @ decimal n3 @ js ''/''
                                        @ decimal (length pages) @ js '' pages'')) s3" by auto
  have fl: "filter (result_synced w env out d) rs
      = map (\<lambda>page. (page, fst (fetchPage_result w page)))
          (filter (\<lambda>page. result_synced w env out d (page, fst (fetchPage_result w page))) pages)"
    unfolding rs by (simp add: filter_map comp_def)
  from process_results_written [OF p] w2
  show ?thesis unfolding n s fl by (simp add: emit_def written_paths_append comp_def)
qed





section \<open>Evaluating the sample runs\<close>

lemmas api_eval = main_claude_api_def api_page_def fetchDoc_def loadManifest_def saveManifest_def
  existsSync_def readFile_def writeFile_def mkdir_def Date_toISOString_def emit_def
  manifest_files_at_def hash_equals_def hashContent_def response_ok_def assign_def
  ManifestEntry_def empty_manifest_def MANIFEST_FILE_def API_BASE_URL_def api_banner_def api_subdirs_def
  summary_def init_vars_def startsWith_def sample_world_def intro_page_def plain_body_def online_def
  js_def Let_def

lemmas gemini_eval = syncDocs_def fetch_batches.simps fetch_batch_def fetchPage_result_def
  process_result_def gemini_catch_def cleanMarkdown_def frontmatter_def trim_def is_js_space_def
  concurrency_def response_ok_def writeFile_def mkdir_def Date_toISOString_def emit_def
  sample_world_def article_html_def article_env_def gemini_online_def read_only_def
  models_page_def text_page_def NL_def DQ_def js_def Let_def

lemmas second_eval = main_claude_api_def api_page_def fetchDoc_def loadManifest_def saveManifest_def
  existsSync_def readFile_def writeFile_def mkdir_def Date_toISOString_def emit_def
  manifest_files_at_def hash_equals_def hashContent_def response_ok_def assign_def
  ManifestEntry_def empty_manifest_def MANIFEST_FILE_def API_BASE_URL_def api_banner_def api_subdirs_def
  summary_def init_vars_def startsWith_def sample_world_def intro_page_def plain_body_def second_run_def
  sample_parse_def files_number_text_def quoted_def DQ_def js_def Let_def

lemmas second_run_eval = second_eval get_started_page_def pricing_page_def previous_manifest_def previous_manifest_text_def
  doc_fetched_def start_def page_changed_def path_key_def manifest_loaded_def


section \<open>Order of processing\<close>

lemma no_request_filter: "(\<forall>u. HttpGet u \<notin> set ev) \<Longrightarrow> filter is_request ev = []"
proof (induction ev)
  case Nil
  then show ?case by simp
next
  case (Cons a ev)
  then show ?case by (cases a) auto
qed

lemma api_page_events_shape:
  "\<exists>rest. api_page_events w d m page =
            StdoutWrite (js ''Fetching '' @ slug page @ js ''...'')
              # HttpGet (API_BASE_URL @ js ''/'' @ slug page @ js ''.md'') # rest \<and>
          filter is_request rest = []"
proof -
  obtain ev where ev: "fetchDoc_events API_BASE_URL w (slug page) = HttpGet (API_BASE_URL @ js ''/'' @ slug page @ js ''.md'') # ev"
    and "\<forall>u. HttpGet u \<notin> set ev"
    using fetchDoc_events_shape by blast
  then have "filter is_request ev = []" using no_request_filter by blast
  then show ?thesis
    unfolding api_page_events_def api_page_def fetchDoc_eq ev
    by (auto simp: Let_def emit_def start_def mkdir_def writeFile_def Date_toISOString_def
             split: option.splits sum.splits if_splits)
qed

text \<open>
  Claim C4, as stated, holds of every job. The gemini-dev job issues the requests of a
  whole batch at once and fetches every page before it converts or writes any: on two
  pages that are served and converted, the requests and file writes of a live run come
  in the order request 1, request 2, file 1, file 2, so the second fetch begins before
  the first page is written.
\<close>

theorem gemini_fetches_before_writing:
  "map (\<lambda>e. case e of HttpGet u \<Rightarrow> u | WriteFile p c \<Rightarrow> p | _ \<Rightarrow> [])
     (filter (\<lambda>e. case e of HttpGet u \<Rightarrow> True | WriteFile p c \<Rightarrow> True | _ \<Rightarrow> False)
        (events (final_state (syncDocs gemini_online article_env [models_page, text_page] (js ''out'') False Map.empty))))
     = [url models_page, url text_page, js ''out/models.md'', js ''out/text-generation.md'']"
  by (simp add: gemini_eval decimal.simps)

text \<open>
  Claim C4, amended. In the claude-api job the pages are processed strictly one after
  the other in list order: the effects of the loop are the effects of its pages, one
  page after the other (all of them when the loop returns, those of the pages reached
  when it throws), and the effects of a page begin with its progress line and its one
  request, with no other request among them. The gemini-dev job is not sequential. Its
  fetch loop cuts the list into consecutive batches of 5 pages, the last one possibly
  shorter; for each batch in turn it issues the requests of all its pages and only then
  handles their responses, and it returns one result per page, in list order. The job
  has two phases: every effect up to some point is not a file write and contains, when
  the job returns, the requests of all pages in list order; no request comes after it.
  In the second phase the results are processed in list order: the job counts the
  pages that are synced, and a live run writes one file for each of them, in list order.
\<close>

theorem sequential_processing:
  "(\<forall>v' s'. api_pages w d m pages v s = Return v' s' \<longrightarrow>
       events s' = events s @ concat (map (api_page_events w d m) pages)) \<and>
   (\<exists>n\<le>length pages. events (final_state (api_pages w d m pages v s))
                         = events s @ concat (map (api_page_events w d m) (take n pages))) \<and>
   (\<exists>rest. api_page_events w d m page =
              StdoutWrite (js ''Fetching '' @ slug page @ js ''...'')
                # HttpGet (API_BASE_URL @ js ''/'' @ slug page @ js ''.md'') # rest \<and>
            filter is_request rest = []) \<and>
   fetch_batches w gpages 0 [] t =
     (map (\<lambda>page. (page, fst (fetchPage_result w page))) gpages,
      t\<lparr>events := events t @
           concat (map (\<lambda>batch. map (\<lambda>page. HttpGet (url page)) batch
                                 @ concat (map (\<lambda>page. snd (fetchPage_result w page)) batch))
                       (chunks 5 gpages))\<rparr>) \<and>
   concat (chunks 5 gpages) = gpages \<and>
   (\<forall>batch\<in>set (chunks 5 gpages). batch \<noteq> [] \<and> length batch \<le> 5) \<and>
   (\<exists>a b. events (final_state (syncDocs w env gpages out d disk)) = a @ b \<and>
          (\<forall>p c. WriteFile p c \<notin> set a) \<and> filter is_request b = [] \<and>
          (\<forall>n s. syncDocs w env gpages out d disk = Return n s \<longrightarrow>
                 filter is_request a = map (\<lambda>page. HttpGet (url page)) gpages)) \<and>
   (\<forall>n s. syncDocs w env gpages out d disk = Return n s \<longrightarrow>
      n = length (filter (\<lambda>page. result_synced w env out d (page, fst (fetchPage_result w page))) gpages) \<and>
      written_paths (events s)
        = (if d then []
           else map (\<lambda>page. path_join w out (g_outputPath page))
                  (filter (\<lambda>page. result_synced w env out d (page, fst (fetchPage_result w page))) gpages)))"
proof -
  have fb: "fetch_batches w gpages 0 [] t =
     (map (\<lambda>page. (page, fst (fetchPage_result w page))) gpages,
      t\<lparr>events := events t @
           concat (map (\<lambda>batch. map (\<lambda>page. HttpGet (url page)) batch
                                 @ concat (map (\<lambda>page. snd (fetchPage_result w page)) batch))
                       (chunks 5 gpages))\<rparr>)"
    using fetch_batches_chunks [of w gpages 0 "[]" t] by simp
  have cc: "concat (chunks 5 gpages) = gpages" by (rule chunks_concat) simp
  have cl: "\<forall>batch\<in>set (chunks 5 gpages). batch \<noteq> [] \<and> length batch \<le> 5"
    using chunks_length by blast
  have wr: "\<forall>n s. syncDocs w env gpages out d disk = Return n s \<longrightarrow>
      n = length (filter (\<lambda>page. result_synced w env out d (page, fst (fetchPage_result w page))) gpages) \<and>
      written_paths (events s)
        = (if d then []
           else map (\<lambda>page. path_join w out (g_outputPath page))
                  (filter (\<lambda>page. result_synced w env out d (page, fst (fetchPage_result w page))) gpages))"
    using syncDocs_written [of w env gpages out d disk] by blast
  show ?thesis
    using api_pages_events [of w d m pages v s] api_pages_events_prefix [of pages w d m v s]
          api_page_events_shape [of w d m page] syncDocs_requests_first [of w env gpages out d disk]
          fb cc cl wr
    by blast
qed

theorem sequential_processing_witness:
  "returned (api_pages online True (empty_manifest API_BASE_URL) [intro_page, intro_page] init_vars (start Map.empty)) \<noteq> None \<and>
   events (final_state (api_pages online True (empty_manifest API_BASE_URL) [intro_page, intro_page] init_vars (start Map.empty)))
     = api_page_events online True (empty_manifest API_BASE_URL) intro_page
       @ api_page_events online True (empty_manifest API_BASE_URL) intro_page \<and>
   events (snd (fetch_batches not_found gemini_DOC_PAGES 0 [] (start Map.empty)))
     = map (\<lambda>page. HttpGet (url page)) (take 5 gemini_DOC_PAGES)
       @ map (\<lambda>page. ConsoleError (js ''  '' @ [0x2717] @ js '' Failed to fetch '' @ url page @ js '': 404'') None)
           (take 5 gemini_DOC_PAGES)
       @ map (\<lambda>page. HttpGet (url page)) (take 5 (drop 5 gemini_DOC_PAGES))
       @ map (\<lambda>page. ConsoleError (js ''  '' @ [0x2717] @ js '' Failed to fetch '' @ url page @ js '': 404'') None)
           (take 5 (drop 5 gemini_DOC_PAGES))
       @ map (\<lambda>page. HttpGet (url page)) (drop 10 gemini_DOC_PAGES)
       @ map (\<lambda>page. ConsoleError (js ''  '' @ [0x2717] @ js '' Failed to fetch '' @ url page @ js '': 404'') None)
           (drop 10 gemini_DOC_PAGES) \<and>
   (\<exists>s. syncDocs gemini_online article_env [models_page, text_page] (js ''out'') False Map.empty = Return 2 s \<and>
        filter is_request (events s) = [HttpGet (url models_page), HttpGet (url text_page)] \<and>
        written_paths (events s) = [js ''out/models.md'', js ''out/text-generation.md''])"
proof -
  let ?r = "api_pages online True (empty_manifest API_BASE_URL) [intro_page, intro_page] init_vars (start Map.empty)"
  let ?g = "syncDocs gemini_online article_env [models_page, text_page] (js ''out'') False Map.empty"
  have a: "returned ?r \<noteq> None"
    by (simp add: api_eval start_def decimal.simps)
  then obtain v s where r: "?r = Return v s" by (cases ?r) auto
  have b: "returned ?g \<noteq> None"
    by (simp add: gemini_eval decimal.simps)
  then obtain n t where g: "?g = Return n t" by (cases ?g) auto
  note S1 = sequential_processing [of online True "empty_manifest API_BASE_URL" "[intro_page, intro_page]"
          init_vars "start Map.empty" intro_page gemini_DOC_PAGES "start Map.empty" article_env "js ''out''" Map.empty]
  note S2 = sequential_processing [of gemini_online False "empty_manifest API_BASE_URL" "[]"
          init_vars "start Map.empty" intro_page "[models_page, text_page]" "start Map.empty" article_env "js ''out''" Map.empty]
  note S3 = sequential_processing [of not_found False "empty_manifest API_BASE_URL" "[]"
          init_vars "start Map.empty" intro_page gemini_DOC_PAGES "start Map.empty" article_env "js ''out''" Map.empty]
  from S1 r have 1: "events s = events (start Map.empty) @ concat (map (api_page_events online True (empty_manifest API_BASE_URL)) [intro_page, intro_page])"
    by blast
  have ch: "chunks 5 gemini_DOC_PAGES
              = [take 5 gemini_DOC_PAGES, take 5 (drop 5 gemini_DOC_PAGES), drop 10 gemini_DOC_PAGES]"
    by (simp add: chunks.simps gemini_DOC_PAGES_def)
  have fl: "snd (fetchPage_result not_found page)
              = [ConsoleError (js ''  '' @ [0x2717] @ js '' Failed to fetch '' @ url page @ js '': 404'') None]" for page
    by (simp add: fetchPage_result_def not_found_def sample_world_def response_ok_def decimal.simps js_def)
  from S3 [THEN conjunct2, THEN conjunct2, THEN conjunct2, THEN conjunct1]
  have "events (snd (fetch_batches not_found gemini_DOC_PAGES 0 [] (start Map.empty)))
      = events (start Map.empty) @
           concat (map (\<lambda>batch. map (\<lambda>page. HttpGet (url page)) batch
                                 @ concat (map (\<lambda>page. snd (fetchPage_result not_found page)) batch))
                       (chunks 5 gemini_DOC_PAGES))"
    by simp
  then have 2: "events (snd (fetch_batches not_found gemini_DOC_PAGES 0 [] (start Map.empty)))
     = map (\<lambda>page. HttpGet (url page)) (take 5 gemini_DOC_PAGES)
       @ map (\<lambda>page. ConsoleError (js ''  '' @ [0x2717] @ js '' Failed to fetch '' @ url page @ js '': 404'') None)
           (take 5 gemini_DOC_PAGES)
       @ map (\<lambda>page. HttpGet (url page)) (take 5 (drop 5 gemini_DOC_PAGES))
       @ map (\<lambda>page. ConsoleError (js ''  '' @ [0x2717] @ js '' Failed to fetch '' @ url page @ js '': 404'') None)
           (take 5 (drop 5 gemini_DOC_PAGES))
       @ map (\<lambda>page. HttpGet (url page)) (drop 10 gemini_DOC_PAGES)
       @ map (\<lambda>page. ConsoleError (js ''  '' @ [0x2717] @ js '' Failed to fetch '' @ url page @ js '': 404'') None)
           (drop 10 gemini_DOC_PAGES)"
    unfolding ch fl by (simp add: start_def concat_map_singleton)
  have sy: "result_synced gemini_online article_env (js ''out'') False (page, fst (fetchPage_result gemini_online page))" for page
    by (simp add: result_synced_def result_converts_def fetchPage_result_def gemini_online_def sample_world_def
          response_ok_def article_env_def article_html_def js_def)
  have pj: "path_join gemini_online (js ''out'') (g_outputPath models_page) = js ''out/models.md''"
    "path_join gemini_online (js ''out'') (g_outputPath text_page) = js ''out/text-generation.md''"
    by (simp_all add: gemini_online_def sample_world_def models_page_def text_page_def js_def)
  from S2 [THEN conjunct2, THEN conjunct2, THEN conjunct2, THEN conjunct2, THEN conjunct2, THEN conjunct2,
           THEN conjunct2, rule_format, OF g]
  have 3: "n = 2" "written_paths (events t) = [js ''out/models.md'', js ''out/text-generation.md'']"
    by (simp_all add: sy pj)
  from S2 [THEN conjunct2, THEN conjunct2, THEN conjunct2, THEN conjunct2, THEN conjunct2, THEN conjunct2,
           THEN conjunct1] g
  have "\<exists>a b. events t = a @ b \<and> filter is_request b = [] \<and>
                  filter is_request a = map (\<lambda>page. HttpGet (url page)) [models_page, text_page]"
    by (metis final_state.simps(1))
  then have 4: "filter is_request (events t) = [HttpGet (url models_page), HttpGet (url text_page)]"
    by auto
  from 1 a r 2 g 3 4 show ?thesis by (simp add: start_def)
qed


section \<open>Preview mode\<close>






section \<open>Change detection in the claude-api job\<close>

lemma fetchDoc_events_fetched:
  "doc_fetched base w sl = Some c \<Longrightarrow> fetchDoc_events base w sl = [HttpGet (base @ js ''/'' @ sl @ js ''.md'')]"
  using fetchDoc_events_shape [of base w sl] by auto


lemma api_page_fetched:
  assumes "doc_fetched API_BASE_URL w (slug p) = Some content"
    and "api_page w d m p v s = Return v' s'"
  shows "\<exists>old. manifest_files_at m (outputPath p) = Inr old \<and>
           (if truthy old \<and> hash_equals old (hashContent w content)
            then map_of (newFiles v') (outputPath p) = old \<and>
                 api_page_events w d m p =
                   [StdoutWrite (js ''Fetching '' @ slug p @ js ''...''),
                    HttpGet (API_BASE_URL @ js ''/'' @ slug p @ js ''.md''),
                    ConsoleLog (js '' unchanged''), Delay 150]
            else map_of (newFiles v') (outputPath p)
                   = Some (ManifestEntry API_BASE_URL p (hashContent w content) (toISOString w (clk s))) \<and>
                 clk s < clk s' \<and>
                 api_page_events w d m p =
                   [StdoutWrite (js ''Fetching '' @ slug p @ js ''...''),
                    HttpGet (API_BASE_URL @ js ''/'' @ slug p @ js ''.md''),
                    ConsoleLog (if truthy old then js '' updated'' else js '' new'')]
                   @ (if d then []
                      else [MkDir (path_dirname w (path_join w (RESOURCES_DIR w) (outputPath p))),
                            WriteFile (path_join w (RESOURCES_DIR w) (outputPath p)) content])
                   @ [Delay 150])"
proof -
  let ?k = "outputPath p" and ?h = "hashContent w content"
  have ne: "content \<noteq> []" using doc_fetched_Some [OF assms(1)] by auto
  note fe = fetchDoc_events_fetched [OF assms(1)]
  obtain old where old: "manifest_files_at m ?k = Inr old"
    using assms(2) ne unfolding api_page_def fetchDoc_eq assms(1)
    by (cases "manifest_files_at m ?k") (simp_all add: Let_def)
  show ?thesis
  proof (cases "truthy old \<and> hash_equals old ?h")
    case True
    then obtain e where e: "old = Some e" by (cases old) auto
    have 1: "v' = v\<lparr>unchanged := unchanged v + 1, newFiles := assign (newFiles v) ?k e\<rparr>"
      using assms(2) ne True unfolding api_page_def fetchDoc_eq assms(1)
      by (simp add: Let_def old e)
    have 2: "api_page_events w d m p =
        [StdoutWrite (js ''Fetching '' @ slug p @ js ''...''),
         HttpGet (API_BASE_URL @ js ''/'' @ slug p @ js ''.md''),
         ConsoleLog (js '' unchanged''), Delay 150]"
      using ne True unfolding api_page_events_def api_page_def fetchDoc_eq assms(1) fe
      by (simp add: Let_def old e emit_def start_def)
    from 1 have "map_of (newFiles v') ?k = old" by (simp add: e assign_def update_conv')
    with 2 old True show ?thesis by simp
  next
    case False
    let ?w = "if d then Return () (s\<lparr>events := events s @ [StdoutWrite (js ''Fetching '' @ slug p @ js ''...''),
                    HttpGet (API_BASE_URL @ js ''/'' @ slug p @ js ''.md''),
                    ConsoleLog (if truthy old then js '' updated'' else js '' new'')]\<rparr>)
              else await (mkdir w (path_dirname w (path_join w (RESOURCES_DIR w) ?k))
                            (s\<lparr>events := events s @ [StdoutWrite (js ''Fetching '' @ slug p @ js ''...''),
                    HttpGet (API_BASE_URL @ js ''/'' @ slug p @ js ''.md''),
                    ConsoleLog (if truthy old then js '' updated'' else js '' new'')]\<rparr>))
                     (\<lambda>_ s3. writeFile w (path_join w (RESOURCES_DIR w) ?k) content s3)"
    have unfold: "api_page w d m p v s =
        await ?w (\<lambda>_ s4. let (now, s5) = Date_toISOString w s4 in
                   Return (v\<lparr>fetched := fetched v + 1,
                             newFiles := assign (newFiles v) ?k (ManifestEntry API_BASE_URL p ?h now)\<rparr>)
                     (emit (Delay 150) s5))"
      using ne False unfolding api_page_def fetchDoc_eq assms(1) fe
      by (simp add: Let_def old emit_def)
    have nofail: "d \<or> (\<not> mkdir_fails w (path_dirname w (path_join w (RESOURCES_DIR w) ?k)) \<and>
                        \<not> write_fails w (path_join w (RESOURCES_DIR w) ?k))"
      using assms(2) unfolding unfold by (auto simp: mkdir_def writeFile_def split: if_splits)
    have 1: "v' = v\<lparr>fetched := fetched v + 1,
                     newFiles := assign (newFiles v) ?k (ManifestEntry API_BASE_URL p ?h (toISOString w (clk s)))\<rparr>"
      and 3: "clk s < clk s'"
      using assms(2) nofail unfolding unfold
      by (auto simp: mkdir_def writeFile_def emit_def Date_toISOString_def split: if_splits)
    have 2: "api_page_events w d m p =
        [StdoutWrite (js ''Fetching '' @ slug p @ js ''...''),
         HttpGet (API_BASE_URL @ js ''/'' @ slug p @ js ''.md''),
         ConsoleLog (if truthy old then js '' updated'' else js '' new'')]
        @ (if d then []
           else [MkDir (path_dirname w (path_join w (RESOURCES_DIR w) ?k)),
                 WriteFile (path_join w (RESOURCES_DIR w) ?k) content])
        @ [Delay 150]"
      using ne False nofail unfolding api_page_events_def api_page_def fetchDoc_eq assms(1) fe
      by (auto simp: Let_def old emit_def start_def mkdir_def writeFile_def Date_toISOString_def)
    from 1 have 4: "map_of (newFiles v') ?k = Some (ManifestEntry API_BASE_URL p ?h (toISOString w (clk s)))"
      by (simp add: assign_def update_conv')
    show ?thesis
      by (rule exI [of _ old], subst if_not_P [OF False]) (use old 2 3 4 in blast)
  qed
qed

lemma saveManifest_Return:
  "saveManifest w base files s = Return u s' \<Longrightarrow>
     s' = s\<lparr>clk := Suc (clk s),
            fs := (fs s)(MANIFEST_FILE w \<mapsto>
                     JSON_stringify w (JObj [(js ''lastSync'', JStr (toISOString w (clk s))),
                                              (js ''baseUrl'', JStr base), (js ''files'', JObj files)])),
            events := events s @ [WriteFile (MANIFEST_FILE w)
                     (JSON_stringify w (JObj [(js ''lastSync'', JStr (toISOString w (clk s))),
                                              (js ''baseUrl'', JStr base), (js ''files'', JObj files)]))]\<rparr>"
  unfolding saveManifest_def Date_toISOString_def writeFile_def emit_def
  by (auto split: if_splits)

lemma main_claude_api_Return:
  assumes "main_claude_api w pages d disk = Return v s"
  shows "\<exists>s2 s3. api_pages w d (manifest_loaded API_BASE_URL w disk) pages init_vars s2 = Return v s3 \<and>
           clk s2 = 0 \<and> fs s2 = disk \<and> clk s3 \<le> clk s \<and> (\<exists>a b. events s = events s3 @ b \<and> events s3 = events s2 @ a) \<and>
           (if d then fs s = fs s3
            else fs s = (fs s3)(MANIFEST_FILE w \<mapsto>
                     JSON_stringify w (JObj [(js ''lastSync'', JStr (toISOString w (clk s3))),
                                              (js ''baseUrl'', JStr API_BASE_URL),
                                              (js ''files'', JObj (newFiles v))])))"
proof -
  let ?m = "manifest_loaded API_BASE_URL w disk"
  let ?ds = "RESOURCES_DIR w # map (path_join w (RESOURCES_DIR w)) api_subdirs"
  let ?l = "loadManifest_events API_BASE_URL w disk"
  let ?s0 = "\<lparr>events = api_banner w d, fs = disk, clk = 0\<rparr>"
  let ?pre = "if d then Return () ?s0 else mkdirs w ?ds ?s0"
  from assms obtain s1 where s1: "?pre = Return () s1"
    unfolding main_claude_api_def Let_def by (cases ?pre) auto
  have s1': "fs s1 = disk \<and> clk s1 = 0"
  proof (cases d)
    case True
    with s1 show ?thesis by auto
  next
    case False
    with s1 have "mkdirs w ?ds ?s0 = Return () s1" by simp
    from mkdirs_Return [OF this] show ?thesis by simp
  qed
  let ?s2 = "s1\<lparr>events := events s1 @ ?l\<rparr>"
  let ?save = "\<lambda>v s3. if d then Return () s3 else saveManifest w API_BASE_URL (newFiles v) s3"
  have run: "main_claude_api w pages d disk =
      await (api_pages w d ?m pages init_vars ?s2)
        (\<lambda>v s3. await (?save v s3)
                   (\<lambda>_ s4. Return v (s4\<lparr>events := events s4 @ summary v (length pages)\<rparr>)))"
    unfolding main_claude_api_def Let_def using s1 s1' by (simp add: loadManifest_eq)
  with assms obtain v3 s3 where loop: "api_pages w d ?m pages init_vars ?s2 = Return v3 s3"
    by (cases "api_pages w d ?m pages init_vars ?s2") auto
  with run assms obtain s4 where save: "?save v3 s3 = Return () s4"
    and fin: "v = v3" "s = s4\<lparr>events := events s4 @ summary v3 (length pages)\<rparr>"
    by (cases "?save v3 s3") auto
  obtain a where a: "events s3 = events ?s2 @ a" using api_pages_events [OF loop] by blast
  have "clk s3 \<le> clk s \<and> (\<exists>b. events s = events s3 @ b) \<and>
        (if d then fs s = fs s3
         else fs s = (fs s3)(MANIFEST_FILE w \<mapsto>
                     JSON_stringify w (JObj [(js ''lastSync'', JStr (toISOString w (clk s3))),
                                              (js ''baseUrl'', JStr API_BASE_URL),
                                              (js ''files'', JObj (newFiles v))])))"
  proof (cases d)
    case True
    with save fin show ?thesis by auto
  next
    case False
    with save have "saveManifest w API_BASE_URL (newFiles v3) s3 = Return () s4" by simp
    from saveManifest_Return [OF this] fin False show ?thesis by simp
  qed
  moreover have "clk ?s2 = 0" "fs ?s2 = disk" using s1' by simp_all
  ultimately show ?thesis using loop fin(1) a by blast
qed


lemma api_page_unchanged:
  assumes "doc_fetched API_BASE_URL w (slug page) = Some content"
    and "manifest_files_at m (outputPath page) = Inr old"
    and "truthy old \<and> hash_equals old (hashContent w content)"
  shows "\<exists>e. old = Some e \<and>
           api_page w d m page v s =
             Return (v\<lparr>unchanged := unchanged v + 1, newFiles := assign (newFiles v) (outputPath page) e\<rparr>)
               (s\<lparr>events := events s @
                    [StdoutWrite (js ''Fetching '' @ slug page @ js ''...''),
                     HttpGet (API_BASE_URL @ js ''/'' @ slug page @ js ''.md''),
                     ConsoleLog (js '' unchanged''), Delay 150]\<rparr>)"
proof -
  have ne: "content \<noteq> []" using doc_fetched_Some [OF assms(1)] by auto
  note fe = fetchDoc_events_fetched [OF assms(1)]
  from assms(3) obtain e where e: "old = Some e" by (cases old) auto
  have "api_page w d m page v s =
             Return (v\<lparr>unchanged := unchanged v + 1, newFiles := assign (newFiles v) (outputPath page) e\<rparr>)
               (s\<lparr>events := events s @
                    [StdoutWrite (js ''Fetching '' @ slug page @ js ''...''),
                     HttpGet (API_BASE_URL @ js ''/'' @ slug page @ js ''.md''),
                     ConsoleLog (js '' unchanged''), Delay 150]\<rparr>)"
    using ne assms(3) unfolding api_page_def fetchDoc_eq assms(1) fe
    by (simp add: Let_def assms(2) e emit_def)
  with e show ?thesis by blast
qed

lemma api_page_changed:
  assumes "doc_fetched API_BASE_URL w (slug page) = Some content"
    and "manifest_files_at m (outputPath page) = Inr old"
    and "\<not> (truthy old \<and> hash_equals old (hashContent w content))"
  shows "api_page w True m page v s =
           Return (v\<lparr>fetched := fetched v + 1,
                     newFiles := assign (newFiles v) (outputPath page)
                       (ManifestEntry API_BASE_URL page (hashContent w content) (toISOString w (clk s)))\<rparr>)
             (s\<lparr>clk := Suc (clk s),
                events := events s @
                  [StdoutWrite (js ''Fetching '' @ slug page @ js ''...''),
                   HttpGet (API_BASE_URL @ js ''/'' @ slug page @ js ''.md''),
                   ConsoleLog (if truthy old then js '' updated'' else js '' new''), Delay 150]\<rparr>)"
    and "\<not> mkdir_fails w (path_dirname w (path_join w (RESOURCES_DIR w) (outputPath page))) \<and>
         \<not> write_fails w (path_join w (RESOURCES_DIR w) (outputPath page)) \<Longrightarrow>
         api_page w False m page v s =
           Return (v\<lparr>fetched := fetched v + 1,
                     newFiles := assign (newFiles v) (outputPath page)
                       (ManifestEntry API_BASE_URL page (hashContent w content) (toISOString w (clk s)))\<rparr>)
             (s\<lparr>clk := Suc (clk s),
                fs := (fs s)(path_join w (RESOURCES_DIR w) (outputPath page) \<mapsto> content),
                events := events s @
                  [StdoutWrite (js ''Fetching '' @ slug page @ js ''...''),
                   HttpGet (API_BASE_URL @ js ''/'' @ slug page @ js ''.md''),
                   ConsoleLog (if truthy old then js '' updated'' else js '' new''),
                   MkDir (path_dirname w (path_join w (RESOURCES_DIR w) (outputPath page))),
                   WriteFile (path_join w (RESOURCES_DIR w) (outputPath page)) content,
                   Delay 150]\<rparr>)"
    and "mkdir_fails w (path_dirname w (path_join w (RESOURCES_DIR w) (outputPath page))) \<or>
         write_fails w (path_join w (RESOURCES_DIR w) (outputPath page)) \<Longrightarrow>
         \<exists>s'. api_page w False m page v s = Throw IOError s' \<and> fs s' = fs s"
proof -
  have ne: "content \<noteq> []" using doc_fetched_Some [OF assms(1)] by auto
  note fe = fetchDoc_events_fetched [OF assms(1)]
  show "api_page w True m page v s =
           Return (v\<lparr>fetched := fetched v + 1,
                     newFiles := assign (newFiles v) (outputPath page)
                       (ManifestEntry API_BASE_URL page (hashContent w content) (toISOString w (clk s)))\<rparr>)
             (s\<lparr>clk := Suc (clk s),
                events := events s @
                  [StdoutWrite (js ''Fetching '' @ slug page @ js ''...''),
                   HttpGet (API_BASE_URL @ js ''/'' @ slug page @ js ''.md''),
                   ConsoleLog (if truthy old then js '' updated'' else js '' new''), Delay 150]\<rparr>)"
    using ne assms(3) unfolding api_page_def fetchDoc_eq assms(1) fe
    by (simp add: Let_def assms(2) emit_def Date_toISOString_def)
  show "api_page w False m page v s =
           Return (v\<lparr>fetched := fetched v + 1,
                     newFiles := assign (newFiles v) (outputPath page)
                       (ManifestEntry API_BASE_URL page (hashContent w content) (toISOString w (clk s)))\<rparr>)
             (s\<lparr>clk := Suc (clk s),
                fs := (fs s)(path_join w (RESOURCES_DIR w) (outputPath page) \<mapsto> content),
                events := events s @
                  [StdoutWrite (js ''Fetching '' @ slug page @ js ''...''),
                   HttpGet (API_BASE_URL @ js ''/'' @ slug page @ js ''.md''),
                   ConsoleLog (if truthy old then js '' updated'' else js '' new''),
                   MkDir (path_dirname w (path_join w (RESOURCES_DIR w) (outputPath page))),
                   WriteFile (path_join w (RESOURCES_DIR w) (outputPath page)) content,
                   Delay 150]\<rparr>)"
    if "\<not> mkdir_fails w (path_dirname w (path_join w (RESOURCES_DIR w) (outputPath page))) \<and>
        \<not> write_fails w (path_join w (RESOURCES_DIR w) (outputPath page))"
    using ne assms(3) that unfolding api_page_def fetchDoc_eq assms(1) fe
    by (simp add: Let_def assms(2) emit_def Date_toISOString_def mkdir_def writeFile_def)
  show "\<exists>s'. api_page w False m page v s = Throw IOError s' \<and> fs s' = fs s"
    if "mkdir_fails w (path_dirname w (path_join w (RESOURCES_DIR w) (outputPath page))) \<or>
        write_fails w (path_join w (RESOURCES_DIR w) (outputPath page))"
    using ne assms(3) that unfolding api_page_def fetchDoc_eq assms(1) fe
    by (auto simp: Let_def assms(2) emit_def Date_toISOString_def mkdir_def writeFile_def)
qed

lemma api_page_clk_exact:
  "api_page w d m p v s = Return v' s' \<Longrightarrow> clk s' = clk s + (if page_changed w m p then 1 else 0)"
  using doc_fetched_Some [of API_BASE_URL w "slug p"]
  unfolding api_page_def fetchDoc_eq page_changed_def
  by (auto simp: Let_def emit_def mkdir_def writeFile_def Date_toISOString_def
           split: option.splits sum.splits if_splits)

lemma api_pages_clk_exact:
  "api_pages w d m ps v s = Return v' s' \<Longrightarrow> clk s' = clk s + length (filter (page_changed w m) ps)"
proof (induction ps arbitrary: v s)
  case Nil
  then show ?case by simp
next
  case (Cons p ps)
  from Cons.prems obtain v1 s1 where
    p: "api_page w d m p v s = Return v1 s1" and r: "api_pages w d m ps v1 s1 = Return v' s'"
    by (cases "api_page w d m p v s") auto
  from api_page_clk_exact [OF p] Cons.IH [OF r] show ?case by simp
qed

lemma api_pages_append:
  "api_pages w d m (xs @ ys) v s = await (api_pages w d m xs v s) (api_pages w d m ys)"
proof (induction xs arbitrary: v s)
  case Nil
  then show ?case by simp
next
  case (Cons x xs)
  then show ?case by (cases "api_page w d m x v s") auto
qed

lemma main_claude_api_entry:
  assumes "main_claude_api w (pre @ page # post) d disk = Return vf sf"
    and "outputPath page \<notin> outputPath ` set post"
    and "doc_fetched API_BASE_URL w (slug page) = Some content"
    and "manifest_files_at (manifest_loaded API_BASE_URL w disk) (outputPath page) = Inr old"
  shows "map_of (newFiles vf) (outputPath page)
           = (if truthy old \<and> hash_equals old (hashContent w content) then old
              else Some (ManifestEntry API_BASE_URL page (hashContent w content)
                           (toISOString w (length (filter (page_changed w (manifest_loaded API_BASE_URL w disk)) pre)))))"
    and "if d then fs sf = disk
         else fs sf (MANIFEST_FILE w) =
                Some (JSON_stringify w
                        (JObj [(js ''lastSync'',
                                JStr (toISOString w (length (filter (page_changed w (manifest_loaded API_BASE_URL w disk))
                                                               (pre @ page # post))))),
                               (js ''baseUrl'', JStr API_BASE_URL),
                               (js ''files'', JObj (newFiles vf))]))"
proof -
  let ?m = "manifest_loaded API_BASE_URL w disk"
  from main_claude_api_Return [OF assms(1)] obtain s2 s3 where
    loop: "api_pages w d ?m (pre @ page # post) init_vars s2 = Return vf s3"
    and fr: "clk s2 = 0" "fs s2 = disk"
    and disk: "if d then fs sf = fs s3
               else fs sf = (fs s3)(MANIFEST_FILE w \<mapsto>
                     JSON_stringify w (JObj [(js ''lastSync'', JStr (toISOString w (clk s3))),
                                              (js ''baseUrl'', JStr API_BASE_URL),
                                              (js ''files'', JObj (newFiles vf))]))"
    by blast
  from loop obtain v1 s1 where pre: "api_pages w d ?m pre init_vars s2 = Return v1 s1"
    and rest: "api_pages w d ?m (page # post) v1 s1 = Return vf s3"
    unfolding api_pages_append by (cases "api_pages w d ?m pre init_vars s2") auto
  from rest obtain v2 s2' where step: "api_page w d ?m page v1 s1 = Return v2 s2'"
    and post: "api_pages w d ?m post v2 s2' = Return vf s3"
    by (cases "api_page w d ?m page v1 s1") auto
  have c1: "clk s1 = length (filter (page_changed w ?m) pre)"
    using api_pages_clk_exact [OF pre] fr(1) by simp
  have c3: "clk s3 = length (filter (page_changed w ?m) (pre @ page # post))"
    using api_pages_clk_exact [OF loop] fr(1) by simp
  have keep: "map_of (newFiles vf) (outputPath page) = map_of (newFiles v2) (outputPath page)"
    using api_pages_other_key [OF post assms(2)] .
  from api_page_fetched [OF assms(3) step] assms(4)
  have "map_of (newFiles v2) (outputPath page)
           = (if truthy old \<and> hash_equals old (hashContent w content) then old
              else Some (ManifestEntry API_BASE_URL page (hashContent w content) (toISOString w (clk s1))))"
    by (auto split: if_splits)
  with keep c1 show "map_of (newFiles vf) (outputPath page)
           = (if truthy old \<and> hash_equals old (hashContent w content) then old
              else Some (ManifestEntry API_BASE_URL page (hashContent w content)
                           (toISOString w (length (filter (page_changed w ?m) pre)))))"
    by simp
  show "if d then fs sf = disk
         else fs sf (MANIFEST_FILE w) =
                Some (JSON_stringify w
                        (JObj [(js ''lastSync'',
                                JStr (toISOString w (length (filter (page_changed w ?m) (pre @ page # post))))),
                               (js ''baseUrl'', JStr API_BASE_URL),
                               (js ''files'', JObj (newFiles vf))]))"
  proof (cases d)
    case True
    with loop have "fs s3 = fs s2" using api_pages_dry_fs [of w ?m "pre @ page # post" init_vars s2] by simp
    with disk fr(2) True show ?thesis by simp
  next
    case False
    with disk c3 show ?thesis by simp
  qed
qed


section \<open>Change detection in the openai-codex job\<close>

lemma codex_doc_Return: "\<exists>v' s'. codex_doc w d m doc v s = Return v' s'"
  unfolding codex_doc_def codex_catch_def
  by (auto simp: Let_def readFile_def mkdir_def writeFile_def Date_toISOString_def
           split: option.splits sum.splits if_splits res.splits)


lemma codex_doc_other_key:
  "codex_doc w d m doc v s = Return v' s' \<Longrightarrow> k \<noteq> dest doc \<Longrightarrow>
     map_of (newFiles v') k = map_of (newFiles v) k"
  unfolding codex_doc_def codex_catch_def
  by (auto simp: Let_def readFile_def mkdir_def writeFile_def Date_toISOString_def assign_def update_conv'
           split: option.splits sum.splits if_splits res.splits)

lemma codex_docs_other_key:
  "codex_docs w d m docs v s = Return v' s' \<Longrightarrow> k \<notin> dest ` set docs \<Longrightarrow>
     map_of (newFiles v') k = map_of (newFiles v) k"
proof (induction docs arbitrary: v s)
  case Nil
  then show ?case by simp
next
  case (Cons doc docs)
  obtain v1 s1 where d: "codex_doc w d m doc v s = Return v1 s1" using codex_doc_Return by blast
  with Cons.prems have r: "codex_docs w d m docs v1 s1 = Return v' s'" by simp
  from Cons.prems(2) have "k \<noteq> dest doc" "k \<notin> dest ` set docs" by auto
  with Cons.IH [OF r] codex_doc_other_key [OF d] show ?case by simp
qed

lemma codex_docs_append:
  "codex_docs w d m (xs @ ys) v s = await (codex_docs w d m xs v s) (codex_docs w d m ys)"
proof (induction xs arbitrary: v s)
  case Nil
  then show ?case by simp
next
  case (Cons x xs)
  then show ?case by (cases "codex_doc w d m x v s") auto
qed

lemma codex_doc_copied:
  assumes "fs s (path_join w TEMP_DIR (src doc)) = Some content"
    and "\<not> read_fails w (path_join w TEMP_DIR (src doc))"
    and "manifest_files_at m (dest doc) = Inr old"
    and "d \<or> (\<not> mkdir_fails w (path_dirname w (path_join w (RESOURCES_DIR w) (dest doc))) \<and>
               \<not> write_fails w (path_join w (RESOURCES_DIR w) (dest doc)))"
  shows "\<exists>v' s'. codex_doc w d m doc v s = Return v' s' \<and>
           (if truthy old \<and> hash_equals old (hashContent w content)
            then map_of (newFiles v') (dest doc) = old \<and> unchanged v' = unchanged v + 1 \<and> fs s' = fs s \<and>
                 events s' = events s @ [StdoutWrite (js ''Processing '' @ src doc @ js ''...''),
                                         ConsoleLog (js '' unchanged'')]
            else map_of (newFiles v') (dest doc)
                   = Some (codex_entry doc (hashContent w content) (toISOString w (clk s))) \<and>
                 fetched v' = fetched v + 1 \<and>
                 events s' = events s @
                   [StdoutWrite (js ''Processing '' @ src doc @ js ''...''),
                    ConsoleLog (if truthy old then js '' updated'' else js '' new'')]
                   @ (if d then []
                      else [MkDir (path_dirname w (path_join w (RESOURCES_DIR w) (dest doc))),
                            WriteFile (path_join w (RESOURCES_DIR w) (dest doc)) content]))"
proof (cases "truthy old \<and> hash_equals old (hashContent w content)")
  case True
  then obtain e where e: "old = Some e" by (cases old) auto
  have "codex_doc w d m doc v s =
          Return (v\<lparr>unchanged := unchanged v + 1, newFiles := assign (newFiles v) (dest doc) e\<rparr>)
            (s\<lparr>events := events s @ [StdoutWrite (js ''Processing '' @ src doc @ js ''...''),
                                     ConsoleLog (js '' unchanged'')]\<rparr>)"
    using assms(1,2,3) True unfolding codex_doc_def
    by (simp add: Let_def existsSync_def readFile_def emit_def e)
  then show ?thesis
    by (subst if_P [OF True]) (simp add: e assign_def update_conv')
next
  case False
  have "codex_doc w d m doc v s =
          Return (v\<lparr>fetched := fetched v + 1,
                    newFiles := assign (newFiles v) (dest doc)
                                  (codex_entry doc (hashContent w content) (toISOString w (clk s)))\<rparr>)
            (s\<lparr>events := events s @
                   [StdoutWrite (js ''Processing '' @ src doc @ js ''...''),
                    ConsoleLog (if truthy old then js '' updated'' else js '' new'')]
                   @ (if d then []
                      else [MkDir (path_dirname w (path_join w (RESOURCES_DIR w) (dest doc))),
                            WriteFile (path_join w (RESOURCES_DIR w) (dest doc)) content]),
                clk := Suc (clk s),
                fs := (if d then fs s else (fs s)(path_join w (RESOURCES_DIR w) (dest doc) \<mapsto> content))\<rparr>)"
    using assms False unfolding codex_doc_def
    by (auto simp: Let_def existsSync_def readFile_def emit_def mkdir_def writeFile_def Date_toISOString_def)
  then show ?thesis
    by (subst if_not_P [OF False]) (simp add: assign_def update_conv')
qed

lemma codex_docs_entry:
  assumes "codex_docs w d m pre v s = Return v1 s1"
    and "codex_docs w d m (pre @ doc # post) v s = Return v' s'"
    and "dest doc \<notin> dest ` set post"
    and "fs s1 (path_join w TEMP_DIR (src doc)) = Some content"
    and "\<not> read_fails w (path_join w TEMP_DIR (src doc))"
    and "manifest_files_at m (dest doc) = Inr old"
    and "d \<or> (\<not> mkdir_fails w (path_dirname w (path_join w (RESOURCES_DIR w) (dest doc))) \<and>
               \<not> write_fails w (path_join w (RESOURCES_DIR w) (dest doc)))"
  shows "if truthy old \<and> hash_equals old (hashContent w content)
         then map_of (newFiles v') (dest doc) = old
         else map_of (newFiles v') (dest doc)
                = Some (codex_entry doc (hashContent w content) (toISOString w (clk s1)))"
proof -
  from codex_doc_copied [OF assms(4,5,6,7), of v1] obtain v2 s2 where
    step: "codex_doc w d m doc v1 s1 = Return v2 s2"
    and st: "if truthy old \<and> hash_equals old (hashContent w content)
             then map_of (newFiles v2) (dest doc) = old
             else map_of (newFiles v2) (dest doc)
                    = Some (codex_entry doc (hashContent w content) (toISOString w (clk s1)))"
    by (auto split: if_splits)
  have "codex_docs w d m (pre @ doc # post) v s = codex_docs w d m post v2 s2"
    using assms(1) step by (simp add: codex_docs_append)
  with assms(2) have "codex_docs w d m post v2 s2 = Return v' s'" by simp
  from codex_docs_other_key [OF this assms(3)] st show ?thesis by simp
qed

lemma codex_doc_unchanged:
  assumes "fs s (path_join w TEMP_DIR (src doc)) = Some content"
    and "\<not> read_fails w (path_join w TEMP_DIR (src doc))"
    and "manifest_files_at m (dest doc) = Inr old"
    and "truthy old \<and> hash_equals old (hashContent w content)"
  shows "\<exists>e. old = Some e \<and>
           codex_doc w d m doc v s =
             Return (v\<lparr>unchanged := unchanged v + 1, newFiles := assign (newFiles v) (dest doc) e\<rparr>)
               (s\<lparr>events := events s @ [StdoutWrite (js ''Processing '' @ src doc @ js ''...''),
                                        ConsoleLog (js '' unchanged'')]\<rparr>)"
proof -
  from assms(4) obtain e where e: "old = Some e" by (cases old) auto
  have "codex_doc w d m doc v s =
          Return (v\<lparr>unchanged := unchanged v + 1, newFiles := assign (newFiles v) (dest doc) e\<rparr>)
            (s\<lparr>events := events s @ [StdoutWrite (js ''Processing '' @ src doc @ js ''...''),
                                     ConsoleLog (js '' unchanged'')]\<rparr>)"
    using assms unfolding codex_doc_def
    by (simp add: Let_def existsSync_def readFile_def emit_def e)
  with e show ?thesis by blast
qed

lemma codex_doc_changed:
  assumes "fs s (path_join w TEMP_DIR (src doc)) = Some content"
    and "\<not> read_fails w (path_join w TEMP_DIR (src doc))"
    and "manifest_files_at m (dest doc) = Inr old"
    and "\<not> (truthy old \<and> hash_equals old (hashContent w content))"
  shows "codex_doc w True m doc v s =
           Return (v\<lparr>fetched := fetched v + 1,
                     newFiles := assign (newFiles v) (dest doc)
                                   (codex_entry doc (hashContent w content) (toISOString w (clk s)))\<rparr>)
             (s\<lparr>clk := Suc (clk s),
                events := events s @
                  [StdoutWrite (js ''Processing '' @ src doc @ js ''...''),
                   ConsoleLog (if truthy old then js '' updated'' else js '' new'')]\<rparr>)"
    and "\<not> mkdir_fails w (path_dirname w (path_join w (RESOURCES_DIR w) (dest doc))) \<and>
         \<not> write_fails w (path_join w (RESOURCES_DIR w) (dest doc)) \<Longrightarrow>
         codex_doc w False m doc v s =
           Return (v\<lparr>fetched := fetched v + 1,
                     newFiles := assign (newFiles v) (dest doc)
                                   (codex_entry doc (hashContent w content) (toISOString w (clk s)))\<rparr>)
             (s\<lparr>clk := Suc (clk s),
                fs := (fs s)(path_join w (RESOURCES_DIR w) (dest doc) \<mapsto> content),
                events := events s @
                  [StdoutWrite (js ''Processing '' @ src doc @ js ''...''),
                   ConsoleLog (if truthy old then js '' updated'' else js '' new''),
                   MkDir (path_dirname w (path_join w (RESOURCES_DIR w) (dest doc))),
                   WriteFile (path_join w (RESOURCES_DIR w) (dest doc)) content]\<rparr>)"
    and "mkdir_fails w (path_dirname w (path_join w (RESOURCES_DIR w) (dest doc))) \<or>
         write_fails w (path_join w (RESOURCES_DIR w) (dest doc)) \<Longrightarrow>
         \<exists>s'. codex_doc w False m doc v s =
                Return (v\<lparr>fetched := fetched v + 1, failed := failed v + 1\<rparr>) s' \<and> fs s' = fs s"
proof -
  show "codex_doc w True m doc v s =
           Return (v\<lparr>fetched := fetched v + 1,
                     newFiles := assign (newFiles v) (dest doc)
                                   (codex_entry doc (hashContent w content) (toISOString w (clk s)))\<rparr>)
             (s\<lparr>clk := Suc (clk s),
                events := events s @
                  [StdoutWrite (js ''Processing '' @ src doc @ js ''...''),
                   ConsoleLog (if truthy old then js '' updated'' else js '' new'')]\<rparr>)"
    using assms unfolding codex_doc_def
    by (simp add: Let_def existsSync_def readFile_def emit_def Date_toISOString_def)
  show "codex_doc w False m doc v s =
           Return (v\<lparr>fetched := fetched v + 1,
                     newFiles := assign (newFiles v) (dest doc)
                                   (codex_entry doc (hashContent w content) (toISOString w (clk s)))\<rparr>)
             (s\<lparr>clk := Suc (clk s),
                fs := (fs s)(path_join w (RESOURCES_DIR w) (dest doc) \<mapsto> content),
                events := events s @
                  [StdoutWrite (js ''Processing '' @ src doc @ js ''...''),
                   ConsoleLog (if truthy old then js '' updated'' else js '' new''),
                   MkDir (path_dirname w (path_join w (RESOURCES_DIR w) (dest doc))),
                   WriteFile (path_join w (RESOURCES_DIR w) (dest doc)) content]\<rparr>)"
    if "\<not> mkdir_fails w (path_dirname w (path_join w (RESOURCES_DIR w) (dest doc))) \<and>
        \<not> write_fails w (path_join w (RESOURCES_DIR w) (dest doc))"
    using assms that unfolding codex_doc_def
    by (simp add: Let_def existsSync_def readFile_def emit_def Date_toISOString_def mkdir_def writeFile_def)
  show "\<exists>s'. codex_doc w False m doc v s =
                Return (v\<lparr>fetched := fetched v + 1, failed := failed v + 1\<rparr>) s' \<and> fs s' = fs s"
    if "mkdir_fails w (path_dirname w (path_join w (RESOURCES_DIR w) (dest doc))) \<or>
        write_fails w (path_join w (RESOURCES_DIR w) (dest doc))"
    using assms that unfolding codex_doc_def codex_catch_def
    by (auto simp: Let_def existsSync_def readFile_def emit_def Date_toISOString_def mkdir_def writeFile_def)
qed


lemmas codex_second_eval = codex_doc_def codex_catch_def codex_entry_def codex_previous_manifest_def
  TEMP_DIR_def existsSync_def readFile_def writeFile_def mkdir_def Date_toISOString_def
  emit_def manifest_files_at_def hash_equals_def hashContent_def assign_def init_vars_def start_def
  sample_world_def plain_body_def second_run_def readme_doc_def agents_doc_def changelog_doc_def cloned_def
  path_key_def js_def Let_def


section \<open>Change detection\<close>

text \<open>
  Claim C1, as stated, has the content written whenever a resource is new or changed.
  In a dry run of the claude-api job over the introduction page, fetched successfully
  and absent from the previous manifest, the page is counted as fetched and its fresh
  entry is recorded, but no file appears at its destination.
\<close>

theorem dry_run_writes_nothing:
  "doc_fetched API_BASE_URL online (slug intro_page) = Some plain_body \<and>
   returned (main_claude_api online [intro_page] True Map.empty)
     = Some \<lparr>newFiles = [(js ''intro.md'',
                          ManifestEntry API_BASE_URL intro_page plain_body (js ''2026-01-01T00:00:00.000Z''))],
             fetched = 1, unchanged = 0, failed = 0\<rparr> \<and>
   fs (final_state (main_claude_api online [intro_page] True Map.empty)) (js ''resources/intro.md'') = None"
  by (simp add: api_eval doc_fetched_def start_def decimal.simps)

text \<open>
  Claim C1, amended. The statement is about one resource of the claude-api job (a page
  whose fetch succeeds) and one of the openai-codex job (a document that is read from
  the clone), each with a key that is a path with a dot and a lookup \<open>manifest.files[key]\<close>
  that does not throw and yields \<open>oldEntry\<close>.

  If \<open>oldEntry\<close> is truthy and its hash equals the hash of the new content, the
  iteration prints \<open>unchanged\<close>, adds one to the counter of unchanged resources and to
  no other, writes nothing, reads no clock and assigns that very entry to the key in
  the new manifest.

  Otherwise it prints \<open>updated\<close> when \<open>oldEntry\<close> is truthy and \<open>new\<close> when it is
  not, adds one to the counter of fetched (copied) resources, and assigns to the key a
  fresh entry holding the new hash and the clock reading taken in this iteration. In a
  dry run nothing is written. In a live run the directory is created and the content is
  written to the destination path; when that fails, no file is written: the claude-api
  iteration throws, while the openai-codex iteration counts the document as copied and
  as failed, records no entry and returns.

  In a run of the claude-api job that returns, the new manifest holds for the key of
  the page, when no later page has the same key, the old entry in the first case and
  the fresh entry in the second, whose reading is the one numbered by the count of
  earlier pages found new or updated; a dry run leaves the disk as it was, and a live
  run ends with the new manifest in the manifest file. In the loop of the openai-codex
  job the same holds of the document's key when its write does not fail.
\<close>

theorem change_detection:
  assumes "doc_fetched API_BASE_URL w (slug page) = Some content"
    and "manifest_files_at m (outputPath page) = Inr old"
    and "path_key (outputPath page)"
    and "fs s0 (path_join w TEMP_DIR (src doc)) = Some content'"
    and "\<not> read_fails w (path_join w TEMP_DIR (src doc))"
    and "manifest_files_at m' (dest doc) = Inr old'"
    and "path_key (dest doc)"
  shows
   "(if truthy old \<and> hash_equals old (hashContent w content)
     then \<exists>e. old = Some e \<and>
            api_page w d m page v s =
              Return (v\<lparr>unchanged := unchanged v + 1, newFiles := assign (newFiles v) (outputPath page) e\<rparr>)
                (s\<lparr>events := events s @
                     [StdoutWrite (js ''Fetching '' @ slug page @ js ''...''),
                      HttpGet (API_BASE_URL @ js ''/'' @ slug page @ js ''.md''),
                      ConsoleLog (js '' unchanged''), Delay 150]\<rparr>)
     else api_page w True m page v s =
            Return (v\<lparr>fetched := fetched v + 1,
                      newFiles := assign (newFiles v) (outputPath page)
                        (ManifestEntry API_BASE_URL page (hashContent w content) (toISOString w (clk s)))\<rparr>)
              (s\<lparr>clk := Suc (clk s),
                 events := events s @
                   [StdoutWrite (js ''Fetching '' @ slug page @ js ''...''),
                    HttpGet (API_BASE_URL @ js ''/'' @ slug page @ js ''.md''),
                    ConsoleLog (if truthy old then js '' updated'' else js '' new''), Delay 150]\<rparr>) \<and>
          (\<not> mkdir_fails w (path_dirname w (path_join w (RESOURCES_DIR w) (outputPath page))) \<and>
           \<not> write_fails w (path_join w (RESOURCES_DIR w) (outputPath page)) \<longrightarrow>
             api_page w False m page v s =
               Return (v\<lparr>fetched := fetched v + 1,
                         newFiles := assign (newFiles v) (outputPath page)
                           (ManifestEntry API_BASE_URL page (hashContent w content) (toISOString w (clk s)))\<rparr>)
                 (s\<lparr>clk := Suc (clk s),
                    fs := (fs s)(path_join w (RESOURCES_DIR w) (outputPath page) \<mapsto> content),
                    events := events s @
                      [StdoutWrite (js ''Fetching '' @ slug page @ js ''...''),
                       HttpGet (API_BASE_URL @ js ''/'' @ slug page @ js ''.md''),
                       ConsoleLog (if truthy old then js '' updated'' else js '' new''),
                       MkDir (path_dirname w (path_join w (RESOURCES_DIR w) (outputPath page))),
                       WriteFile (path_join w (RESOURCES_DIR w) (outputPath page)) content,
                       Delay 150]\<rparr>)) \<and>
          (mkdir_fails w (path_dirname w (path_join w (RESOURCES_DIR w) (outputPath page))) \<or>
           write_fails w (path_join w (RESOURCES_DIR w) (outputPath page)) \<longrightarrow>
             (\<exists>s'. api_page w False m page v s = Throw IOError s' \<and> fs s' = fs s))) \<and>
    (\<forall>pre post vf sf.
        m = manifest_loaded API_BASE_URL w disk \<and>
        main_claude_api w (pre @ page # post) d disk = Return vf sf \<and>
        outputPath page \<notin> outputPath ` set post \<longrightarrow>
          map_of (newFiles vf) (outputPath page)
            = (if truthy old \<and> hash_equals old (hashContent w content) then old
               else Some (ManifestEntry API_BASE_URL page (hashContent w content)
                            (toISOString w (length (filter (page_changed w m) pre))))) \<and>
          (if d then fs sf = disk
           else fs sf (MANIFEST_FILE w) =
                  Some (JSON_stringify w
                          (JObj [(js ''lastSync'',
                                  JStr (toISOString w (length (filter (page_changed w m) (pre @ page # post))))),
                                 (js ''baseUrl'', JStr API_BASE_URL),
                                 (js ''files'', JObj (newFiles vf))])))) \<and>
    (if truthy old' \<and> hash_equals old' (hashContent w content')
     then \<exists>e. old' = Some e \<and>
            codex_doc w d m' doc v s0 =
              Return (v\<lparr>unchanged := unchanged v + 1, newFiles := assign (newFiles v) (dest doc) e\<rparr>)
                (s0\<lparr>events := events s0 @ [StdoutWrite (js ''Processing '' @ src doc @ js ''...''),
                                           ConsoleLog (js '' unchanged'')]\<rparr>)
     else codex_doc w True m' doc v s0 =
            Return (v\<lparr>fetched := fetched v + 1,
                      newFiles := assign (newFiles v) (dest doc)
                                    (codex_entry doc (hashContent w content') (toISOString w (clk s0)))\<rparr>)
              (s0\<lparr>clk := Suc (clk s0),
                  events := events s0 @
                    [StdoutWrite (js ''Processing '' @ src doc @ js ''...''),
                     ConsoleLog (if truthy old' then js '' updated'' else js '' new'')]\<rparr>) \<and>
          (\<not> mkdir_fails w (path_dirname w (path_join w (RESOURCES_DIR w) (dest doc))) \<and>
           \<not> write_fails w (path_join w (RESOURCES_DIR w) (dest doc)) \<longrightarrow>
             codex_doc w False m' doc v s0 =
               Return (v\<lparr>fetched := fetched v + 1,
                         newFiles := assign (newFiles v) (dest doc)
                                       (codex_entry doc (hashContent w content') (toISOString w (clk s0)))\<rparr>)
                 (s0\<lparr>clk := Suc (clk s0),
                     fs := (fs s0)(path_join w (RESOURCES_DIR w) (dest doc) \<mapsto> content'),
                     events := events s0 @
                       [StdoutWrite (js ''Processing '' @ src doc @ js ''...''),
                        ConsoleLog (if truthy old' then js '' updated'' else js '' new''),
                        MkDir (path_dirname w (path_join w (RESOURCES_DIR w) (dest doc))),
                        WriteFile (path_join w (RESOURCES_DIR w) (dest doc)) content']\<rparr>)) \<and>
          (mkdir_fails w (path_dirname w (path_join w (RESOURCES_DIR w) (dest doc))) \<or>
           write_fails w (path_join w (RESOURCES_DIR w) (dest doc)) \<longrightarrow>
             (\<exists>s'. codex_doc w False m' doc v s0 =
                     Return (v\<lparr>fetched := fetched v + 1, failed := failed v + 1\<rparr>) s' \<and> fs s' = fs s0))) \<and>
    (\<forall>pre post v0 t0 v1 v2 t2.
        codex_docs w d m' pre v0 t0 = Return v1 s0 \<and>
        codex_docs w d m' (pre @ doc # post) v0 t0 = Return v2 t2 \<and>
        dest doc \<notin> dest ` set post \<and>
        (d \<or> (\<not> mkdir_fails w (path_dirname w (path_join w (RESOURCES_DIR w) (dest doc))) \<and>
              \<not> write_fails w (path_join w (RESOURCES_DIR w) (dest doc)))) \<longrightarrow>
          map_of (newFiles v2) (dest doc)
            = (if truthy old' \<and> hash_equals old' (hashContent w content') then old'
               else Some (codex_entry doc (hashContent w content') (toISOString w (clk s0)))))"
proof -
  have A: "if truthy old \<and> hash_equals old (hashContent w content)
     then \<exists>e. old = Some e \<and>
            api_page w d m page v s =
              Return (v\<lparr>unchanged := unchanged v + 1, newFiles := assign (newFiles v) (outputPath page) e\<rparr>)
                (s\<lparr>events := events s @
                     [StdoutWrite (js ''Fetching '' @ slug page @ js ''...''),
                      HttpGet (API_BASE_URL @ js ''/'' @ slug page @ js ''.md''),
                      ConsoleLog (js '' unchanged''), Delay 150]\<rparr>)
     else api_page w True m page v s =
            Return (v\<lparr>fetched := fetched v + 1,
                      newFiles := assign (newFiles v) (outputPath page)
                        (ManifestEntry API_BASE_URL page (hashContent w content) (toISOString w (clk s)))\<rparr>)
              (s\<lparr>clk := Suc (clk s),
                 events := events s @
                   [StdoutWrite (js ''Fetching '' @ slug page @ js ''...''),
                    HttpGet (API_BASE_URL @ js ''/'' @ slug page @ js ''.md''),
                    ConsoleLog (if truthy old then js '' updated'' else js '' new''), Delay 150]\<rparr>) \<and>
          (\<not> mkdir_fails w (path_dirname w (path_join w (RESOURCES_DIR w) (outputPath page))) \<and>
           \<not> write_fails w (path_join w (RESOURCES_DIR w) (outputPath page)) \<longrightarrow>
             api_page w False m page v s =
               Return (v\<lparr>fetched := fetched v + 1,
                         newFiles := assign (newFiles v) (outputPath page)
                           (ManifestEntry API_BASE_URL page (hashContent w content) (toISOString w (clk s)))\<rparr>)
                 (s\<lparr>clk := Suc (clk s),
                    fs := (fs s)(path_join w (RESOURCES_DIR w) (outputPath page) \<mapsto> content),
                    events := events s @
                      [StdoutWrite (js ''Fetching '' @ slug page @ js ''...''),
                       HttpGet (API_BASE_URL @ js ''/'' @ slug page @ js ''.md''),
                       ConsoleLog (if truthy old then js '' updated'' else js '' new''),
                       MkDir (path_dirname w (path_join w (RESOURCES_DIR w) (outputPath page))),
                       WriteFile (path_join w (RESOURCES_DIR w) (outputPath page)) content,
                       Delay 150]\<rparr>)) \<and>
          (mkdir_fails w (path_dirname w (path_join w (RESOURCES_DIR w) (outputPath page))) \<or>
           write_fails w (path_join w (RESOURCES_DIR w) (outputPath page)) \<longrightarrow>
             (\<exists>s'. api_page w False m page v s = Throw IOError s' \<and> fs s' = fs s))"
  proof (cases "truthy old \<and> hash_equals old (hashContent w content)")
    case True
    show ?thesis
      by (subst if_P [OF True]) (rule api_page_unchanged [OF assms(1,2) True])
  next
    case False
    note c = api_page_changed [OF assms(1,2) False, of v s]
    show ?thesis
      by (subst if_not_P [OF False]) (use c in blast)
  qed
  have B: "map_of (newFiles vf) (outputPath page)
            = (if truthy old \<and> hash_equals old (hashContent w content) then old
               else Some (ManifestEntry API_BASE_URL page (hashContent w content)
                            (toISOString w (length (filter (page_changed w m) pre))))) \<and>
          (if d then fs sf = disk
           else fs sf (MANIFEST_FILE w) =
                  Some (JSON_stringify w
                          (JObj [(js ''lastSync'',
                                  JStr (toISOString w (length (filter (page_changed w m) (pre @ page # post))))),
                                 (js ''baseUrl'', JStr API_BASE_URL),
                                 (js ''files'', JObj (newFiles vf))])))"
    if "m = manifest_loaded API_BASE_URL w disk"
      and "main_claude_api w (pre @ page # post) d disk = Return vf sf"
      and "outputPath page \<notin> outputPath ` set post" for pre post vf sf
    using main_claude_api_entry [OF that(2,3) assms(1) assms(2) [unfolded that(1)]]
    unfolding that(1) by blast
  have C: "if truthy old' \<and> hash_equals old' (hashContent w content')
     then \<exists>e. old' = Some e \<and>
            codex_doc w d m' doc v s0 =
              Return (v\<lparr>unchanged := unchanged v + 1, newFiles := assign (newFiles v) (dest doc) e\<rparr>)
                (s0\<lparr>events := events s0 @ [StdoutWrite (js ''Processing '' @ src doc @ js ''...''),
                                           ConsoleLog (js '' unchanged'')]\<rparr>)
     else codex_doc w True m' doc v s0 =
            Return (v\<lparr>fetched := fetched v + 1,
                      newFiles := assign (newFiles v) (dest doc)
                                    (codex_entry doc (hashContent w content') (toISOString w (clk s0)))\<rparr>)
              (s0\<lparr>clk := Suc (clk s0),
                  events := events s0 @
                    [StdoutWrite (js ''Processing '' @ src doc @ js ''...''),
                     ConsoleLog (if truthy old' then js '' updated'' else js '' new'')]\<rparr>) \<and>
          (\<not> mkdir_fails w (path_dirname w (path_join w (RESOURCES_DIR w) (dest doc))) \<and>
           \<not> write_fails w (path_join w (RESOURCES_DIR w) (dest doc)) \<longrightarrow>
             codex_doc w False m' doc v s0 =
               Return (v\<lparr>fetched := fetched v + 1,
                         newFiles := assign (newFiles v) (dest doc)
                                       (codex_entry doc (hashContent w content') (toISOString w (clk s0)))\<rparr>)
                 (s0\<lparr>clk := Suc (clk s0),
                     fs := (fs s0)(path_join w (RESOURCES_DIR w) (dest doc) \<mapsto> content'),
                     events := events s0 @
                       [StdoutWrite (js ''Processing '' @ src doc @ js ''...''),
                        ConsoleLog (if truthy old' then js '' updated'' else js '' new''),
                        MkDir (path_dirname w (path_join w (RESOURCES_DIR w) (dest doc))),
                        WriteFile (path_join w (RESOURCES_DIR w) (dest doc)) content']\<rparr>)) \<and>
          (mkdir_fails w (path_dirname w (path_join w (RESOURCES_DIR w) (dest doc))) \<or>
           write_fails w (path_join w (RESOURCES_DIR w) (dest doc)) \<longrightarrow>
             (\<exists>s'. codex_doc w False m' doc v s0 =
                     Return (v\<lparr>fetched := fetched v + 1, failed := failed v + 1\<rparr>) s' \<and> fs s' = fs s0))"
  proof (cases "truthy old' \<and> hash_equals old' (hashContent w content')")
    case True
    show ?thesis
      by (subst if_P [OF True]) (rule codex_doc_unchanged [OF assms(4,5,6) True])
  next
    case False
    note c = codex_doc_changed [OF assms(4,5,6) False, of v]
    show ?thesis
      by (subst if_not_P [OF False]) (use c in blast)
  qed
  have D: "map_of (newFiles v2) (dest doc)
            = (if truthy old' \<and> hash_equals old' (hashContent w content') then old'
               else Some (codex_entry doc (hashContent w content') (toISOString w (clk s0))))"
    if "codex_docs w d m' pre v0 t0 = Return v1 s0"
      and "codex_docs w d m' (pre @ doc # post) v0 t0 = Return v2 t2"
      and "dest doc \<notin> dest ` set post"
      and "d \<or> (\<not> mkdir_fails w (path_dirname w (path_join w (RESOURCES_DIR w) (dest doc))) \<and>
               \<not> write_fails w (path_join w (RESOURCES_DIR w) (dest doc)))"
    for pre post v0 t0 v1 v2 t2
    using codex_docs_entry [OF that(1,2,3) assms(4,5,6) that(4)] by (auto split: if_splits)
  from B have B': "\<forall>pre post vf sf.
        m = manifest_loaded API_BASE_URL w disk \<and>
        main_claude_api w (pre @ page # post) d disk = Return vf sf \<and>
        outputPath page \<notin> outputPath ` set post \<longrightarrow>
          map_of (newFiles vf) (outputPath page)
            = (if truthy old \<and> hash_equals old (hashContent w content) then old
               else Some (ManifestEntry API_BASE_URL page (hashContent w content)
                            (toISOString w (length (filter (page_changed w m) pre))))) \<and>
          (if d then fs sf = disk
           else fs sf (MANIFEST_FILE w) =
                  Some (JSON_stringify w
                          (JObj [(js ''lastSync'',
                                  JStr (toISOString w (length (filter (page_changed w m) (pre @ page # post))))),
                                 (js ''baseUrl'', JStr API_BASE_URL),
                                 (js ''files'', JObj (newFiles vf))])))"
    by blast
  from D have D': "\<forall>pre post v0 t0 v1 v2 t2.
        codex_docs w d m' pre v0 t0 = Return v1 s0 \<and>
        codex_docs w d m' (pre @ doc # post) v0 t0 = Return v2 t2 \<and>
        dest doc \<notin> dest ` set post \<and>
        (d \<or> (\<not> mkdir_fails w (path_dirname w (path_join w (RESOURCES_DIR w) (dest doc))) \<and>
              \<not> write_fails w (path_join w (RESOURCES_DIR w) (dest doc)))) \<longrightarrow>
          map_of (newFiles v2) (dest doc)
            = (if truthy old' \<and> hash_equals old' (hashContent w content') then old'
               else Some (codex_entry doc (hashContent w content') (toISOString w (clk s0))))"
    by blast
  show ?thesis
    by (intro conjI) (rule A, rule B', rule C, rule D')
qed

theorem change_detection_witness:
  "(\<exists>vf sf.
      main_claude_api second_run [intro_page, get_started_page, pricing_page] False
        [js ''resources/manifest.json'' \<mapsto> previous_manifest_text] = Return vf sf \<and>
      map_of (newFiles vf) (js ''intro.md'')
        = Some (JObj [(js ''hash'', JStr plain_body), (js ''lastUpdated'', JStr (js ''2025-12-01T00:00:00.000Z''))]) \<and>
      map_of (newFiles vf) (js ''get-started.md'')
        = Some (ManifestEntry API_BASE_URL get_started_page plain_body (js ''2026-01-01T00:00:00.000Z'')) \<and>
      map_of (newFiles vf) (js ''pricing.md'')
        = Some (ManifestEntry API_BASE_URL pricing_page plain_body (js ''2026-01-01T00:00:01.000Z''))) \<and>
   api_page second_run False previous_manifest intro_page init_vars (start Map.empty)
     = Return (init_vars\<lparr>unchanged := 1,
                 newFiles := [(js ''intro.md'',
                               JObj [(js ''hash'', JStr plain_body),
                                     (js ''lastUpdated'', JStr (js ''2025-12-01T00:00:00.000Z''))])]\<rparr>)
         ((start Map.empty)\<lparr>events :=
            [StdoutWrite (js ''Fetching intro...''),
             HttpGet (js ''https://platform.claude.com/docs/en/intro.md''),
             ConsoleLog (js '' unchanged''), Delay 150]\<rparr>) \<and>
   events (final_state (api_page second_run False previous_manifest get_started_page init_vars (start Map.empty)))
     = [StdoutWrite (js ''Fetching get-started...''),
        HttpGet (js ''https://platform.claude.com/docs/en/get-started.md''),
        ConsoleLog (js '' updated''), MkDir (js ''resources''),
        WriteFile (js ''resources/get-started.md'') plain_body, Delay 150] \<and>
   events (final_state (api_page second_run False previous_manifest pricing_page init_vars (start Map.empty)))
     = [StdoutWrite (js ''Fetching about-claude/pricing...''),
        HttpGet (js ''https://platform.claude.com/docs/en/about-claude/pricing.md''),
        ConsoleLog (js '' new''), MkDir (js ''resources''),
        WriteFile (js ''resources/pricing.md'') plain_body, Delay 150] \<and>
   codex_doc second_run False codex_previous_manifest readme_doc init_vars (start cloned)
     = Return (init_vars\<lparr>unchanged := 1,
                 newFiles := [(js ''readme.md'',
                               JObj [(js ''hash'', JStr plain_body),
                                     (js ''lastUpdated'', JStr (js ''2025-12-01T00:00:00.000Z''))])]\<rparr>)
         ((start cloned)\<lparr>events := [StdoutWrite (js ''Processing README.md...''), ConsoleLog (js '' unchanged'')]\<rparr>) \<and>
   events (final_state (codex_doc second_run False codex_previous_manifest agents_doc init_vars (start cloned)))
     = [StdoutWrite (js ''Processing AGENTS.md...''), ConsoleLog (js '' updated''),
        MkDir (js ''resources''), WriteFile (js ''resources/agents-md.md'') plain_body] \<and>
   events (final_state (codex_doc second_run False codex_previous_manifest changelog_doc init_vars (start cloned)))
     = [StdoutWrite (js ''Processing CHANGELOG.md...''), ConsoleLog (js '' new''),
        MkDir (js ''resources''), WriteFile (js ''resources/changelog.md'') plain_body] \<and>
   (\<exists>s'. api_page disk_full False previous_manifest pricing_page init_vars (start Map.empty) = Throw IOError s' \<and>
         fs s' = Map.empty) \<and>
   (\<exists>s'. codex_doc disk_full False codex_previous_manifest changelog_doc init_vars (start cloned)
           = Return (init_vars\<lparr>fetched := 1, failed := 1\<rparr>) s' \<and>
         fs s' = cloned)"
proof -
  let ?disk = "[js ''resources/manifest.json'' \<mapsto> previous_manifest_text]"
  let ?pages = "[intro_page, get_started_page, pricing_page]"
  let ?ie = "JObj [(js ''hash'', JStr plain_body), (js ''lastUpdated'', JStr (js ''2025-12-01T00:00:00.000Z''))]"
  let ?ge = "JObj [(js ''hash'', JStr (js ''0000'')), (js ''lastUpdated'', JStr (js ''2025-11-01T00:00:00.000Z''))]"
  have f: "doc_fetched API_BASE_URL second_run (slug intro_page) = Some plain_body"
    "doc_fetched API_BASE_URL second_run (slug get_started_page) = Some plain_body"
    "doc_fetched API_BASE_URL second_run (slug pricing_page) = Some plain_body"
    by (simp_all add: second_run_eval)
  have l: "manifest_files_at previous_manifest (outputPath intro_page) = Inr (Some ?ie)"
    "manifest_files_at previous_manifest (outputPath get_started_page) = Inr (Some ?ge)"
    "manifest_files_at previous_manifest (outputPath pricing_page) = Inr None"
    by (simp_all add: second_run_eval)
  have k: "path_key (outputPath intro_page)" "path_key (outputPath get_started_page)" "path_key (outputPath pricing_page)"
    "path_key (dest readme_doc)" "path_key (dest agents_doc)" "path_key (dest changelog_doc)"
    by (simp_all add: second_run_eval codex_second_eval)
  have r: "fs (start cloned) (path_join second_run TEMP_DIR (src readme_doc)) = Some plain_body"
    "fs (start cloned) (path_join second_run TEMP_DIR (src agents_doc)) = Some plain_body"
    "fs (start cloned) (path_join second_run TEMP_DIR (src changelog_doc)) = Some plain_body"
    by (simp_all add: codex_second_eval)
  have nr: "\<not> read_fails second_run p" for p
    by (simp add: second_run_def sample_world_def)
  have lc: "manifest_files_at codex_previous_manifest (dest readme_doc) = Inr (Some ?ie)"
    "manifest_files_at codex_previous_manifest (dest agents_doc) = Inr (Some ?ge)"
    "manifest_files_at codex_previous_manifest (dest changelog_doc) = Inr None"
    by (simp_all add: codex_second_eval)
  have c: "truthy (Some ?ie) \<and> hash_equals (Some ?ie) (hashContent second_run plain_body)"
    "\<not> (truthy (Some ?ge) \<and> hash_equals (Some ?ge) (hashContent second_run plain_body))"
    "truthy (Some ?ge)"
    "\<not> (truthy None \<and> hash_equals None (hashContent second_run plain_body))"
    "\<not> truthy None"
    by (simp_all add: second_run_eval)
  have io: "\<not> mkdir_fails second_run p \<and> \<not> write_fails second_run q" for p q
    by (simp add: second_run_def sample_world_def)
  have ml: "previous_manifest = manifest_loaded API_BASE_URL second_run ?disk"
    by (simp add: manifest_loaded_def loadManifest_def existsSync_def readFile_def start_def MANIFEST_FILE_def
          second_run_def sample_world_def sample_parse_def previous_manifest_text_def files_number_text_def
          quoted_def DQ_def js_def)
  have pc: "\<not> page_changed second_run previous_manifest intro_page"
    "page_changed second_run previous_manifest get_started_page"
    unfolding page_changed_def f l using c by simp_all
  have ev: "toISOString second_run 0 = js ''2026-01-01T00:00:00.000Z''"
    "toISOString second_run (Suc 0) = js ''2026-01-01T00:00:01.000Z''"
    "hashContent second_run plain_body = plain_body"
    "path_join second_run (RESOURCES_DIR second_run) (js ''get-started.md'') = js ''resources/get-started.md''"
    "path_join second_run (RESOURCES_DIR second_run) (js ''pricing.md'') = js ''resources/pricing.md''"
    "path_join second_run (RESOURCES_DIR second_run) (js ''agents-md.md'') = js ''resources/agents-md.md''"
    "path_join second_run (RESOURCES_DIR second_run) (js ''changelog.md'') = js ''resources/changelog.md''"
    "path_dirname second_run (js ''resources/get-started.md'') = js ''resources''"
    "path_dirname second_run (js ''resources/pricing.md'') = js ''resources''"
    "path_dirname second_run (js ''resources/agents-md.md'') = js ''resources''"
    "path_dirname second_run (js ''resources/changelog.md'') = js ''resources''"
    by (simp_all add: second_run_def sample_world_def hashContent_def decimal.simps js_def)
  have "returned (main_claude_api second_run ?pages False ?disk) \<noteq> None"
    by (simp add: second_run_eval decimal.simps)
  then obtain vf sf where run: "main_claude_api second_run ?pages False ?disk = Return vf sf"
    by (cases "main_claude_api second_run ?pages False ?disk") auto
  note R1 = change_detection [where d = False and v = init_vars and s = "start Map.empty" and disk = ?disk,
                              OF f(1) l(1) k(1) r(1) nr lc(1) k(4)]
  note R2 = change_detection [where d = False and v = init_vars and s = "start Map.empty" and disk = ?disk,
                              OF f(2) l(2) k(2) r(2) nr lc(2) k(5)]
  note R3 = change_detection [where d = False and v = init_vars and s = "start Map.empty" and disk = ?disk,
                              OF f(3) l(3) k(3) r(3) nr lc(3) k(6)]
  have split: "?pages = [] @ intro_page # [get_started_page, pricing_page]"
    "?pages = [intro_page] @ get_started_page # [pricing_page]"
    "?pages = [intro_page, get_started_page] @ pricing_page # []"
    by simp_all
  have keys: "outputPath intro_page \<notin> outputPath ` set [get_started_page, pricing_page]"
    "outputPath get_started_page \<notin> outputPath ` set [pricing_page]"
    "outputPath pricing_page \<notin> outputPath ` set []"
    by (simp_all add: intro_page_def get_started_page_def pricing_page_def js_def)
  have e1: "map_of (newFiles vf) (js ''intro.md'') = Some ?ie"
    using R1 [THEN conjunct2, THEN conjunct1, rule_format, of "[]" "[get_started_page, pricing_page]" vf sf]
          ml run keys(1) c(1)
    by (simp add: intro_page_def)
  have e2: "map_of (newFiles vf) (js ''get-started.md'')
              = Some (ManifestEntry API_BASE_URL get_started_page plain_body (js ''2026-01-01T00:00:00.000Z''))"
    using R2 [THEN conjunct2, THEN conjunct1, rule_format, of "[intro_page]" "[pricing_page]" vf sf]
          ml run keys(2) c(2) pc ev(1,3)
    by (simp add: get_started_page_def)
  have e3: "map_of (newFiles vf) (js ''pricing.md'')
              = Some (ManifestEntry API_BASE_URL pricing_page plain_body (js ''2026-01-01T00:00:01.000Z''))"
    using R3 [THEN conjunct2, THEN conjunct1, rule_format, of "[intro_page, get_started_page]" "[]" vf sf]
          ml run keys(3) c(4) pc ev(2,3)
    by (simp add: pricing_page_def)
  have a1: "api_page second_run False previous_manifest intro_page init_vars (start Map.empty)
     = Return (init_vars\<lparr>unchanged := 1, newFiles := [(js ''intro.md'', ?ie)]\<rparr>)
         ((start Map.empty)\<lparr>events :=
            [StdoutWrite (js ''Fetching intro...''),
             HttpGet (js ''https://platform.claude.com/docs/en/intro.md''),
             ConsoleLog (js '' unchanged''), Delay 150]\<rparr>)"
    using R1 [THEN conjunct1] c(1)
    by (simp add: init_vars_def assign_def start_def intro_page_def API_BASE_URL_def js_def)
  have a2: "events (final_state (api_page second_run False previous_manifest get_started_page init_vars (start Map.empty)))
     = [StdoutWrite (js ''Fetching get-started...''),
        HttpGet (js ''https://platform.claude.com/docs/en/get-started.md''),
        ConsoleLog (js '' updated''), MkDir (js ''resources''),
        WriteFile (js ''resources/get-started.md'') plain_body, Delay 150]"
    using R2 [THEN conjunct1] c(2,3) io ev
    by (simp add: start_def get_started_page_def API_BASE_URL_def js_def)
  have a3: "events (final_state (api_page second_run False previous_manifest pricing_page init_vars (start Map.empty)))
     = [StdoutWrite (js ''Fetching about-claude/pricing...''),
        HttpGet (js ''https://platform.claude.com/docs/en/about-claude/pricing.md''),
        ConsoleLog (js '' new''), MkDir (js ''resources''),
        WriteFile (js ''resources/pricing.md'') plain_body, Delay 150]"
    using R3 [THEN conjunct1] c(4,5) io ev
    by (simp add: start_def pricing_page_def API_BASE_URL_def js_def)
  have b1: "codex_doc second_run False codex_previous_manifest readme_doc init_vars (start cloned)
     = Return (init_vars\<lparr>unchanged := 1, newFiles := [(js ''readme.md'', ?ie)]\<rparr>)
         ((start cloned)\<lparr>events := [StdoutWrite (js ''Processing README.md...''), ConsoleLog (js '' unchanged'')]\<rparr>)"
    using R1 [THEN conjunct2, THEN conjunct2, THEN conjunct1] c(1)
    by (simp add: init_vars_def assign_def start_def readme_doc_def js_def)
  have b2: "events (final_state (codex_doc second_run False codex_previous_manifest agents_doc init_vars (start cloned)))
     = [StdoutWrite (js ''Processing AGENTS.md...''), ConsoleLog (js '' updated''),
        MkDir (js ''resources''), WriteFile (js ''resources/agents-md.md'') plain_body]"
    using R2 [THEN conjunct2, THEN conjunct2, THEN conjunct1] c(2,3) io ev
    by (simp add: start_def agents_doc_def js_def)
  have b3: "events (final_state (codex_doc second_run False codex_previous_manifest changelog_doc init_vars (start cloned)))
     = [StdoutWrite (js ''Processing CHANGELOG.md...''), ConsoleLog (js '' new''),
        MkDir (js ''resources''), WriteFile (js ''resources/changelog.md'') plain_body]"
    using R3 [THEN conjunct2, THEN conjunct2, THEN conjunct1] c(4,5) io ev
    by (simp add: start_def changelog_doc_def js_def)
  have f': "doc_fetched API_BASE_URL disk_full (slug pricing_page) = Some plain_body"
    by (simp add: second_run_eval disk_full_def)
  have r': "fs (start cloned) (path_join disk_full TEMP_DIR (src changelog_doc)) = Some plain_body"
    and nr': "\<not> read_fails disk_full (path_join disk_full TEMP_DIR (src changelog_doc))"
    by (simp_all add: codex_second_eval disk_full_def)
  have c': "\<not> (truthy None \<and> hash_equals None (hashContent disk_full plain_body))"
    by simp
  have wf: "write_fails disk_full p" for p
    by (simp add: disk_full_def)
  note R4 = change_detection [where d = False and v = init_vars and s = "start Map.empty" and disk = ?disk,
                              OF f' l(3) k(3) r' nr' lc(3) k(6), unfolded if_not_P [OF c']]
  from R4 [THEN conjunct1] wf
  have a4: "\<exists>s'. api_page disk_full False previous_manifest pricing_page init_vars (start Map.empty) = Throw IOError s' \<and>
         fs s' = Map.empty"
    by (simp add: start_def)
  from R4 [THEN conjunct2, THEN conjunct2, THEN conjunct1] wf
  have b4: "\<exists>s'. codex_doc disk_full False codex_previous_manifest changelog_doc init_vars (start cloned)
           = Return (init_vars\<lparr>fetched := 1, failed := 1\<rparr>) s' \<and> fs s' = cloned"
    by (simp add: start_def init_vars_def)
  from run e1 e2 e3 a1 a2 a3 b1 b2 b3 a4 b4 show ?thesis by blast
qed


section \<open>A manifest file of another shape\<close>

















section \<open>Exit status\<close>















section \<open>Counters of the claude-code job\<close>

lemma code_page_counters:
  "code_page w d m p v s = Return v' s' \<Longrightarrow>
     fetched v' + unchanged v' + failed v' = fetched v + unchanged v + failed v + 1"
  unfolding code_page_def fetchDoc_eq
  by (auto simp: Let_def writeFile_def Date_toISOString_def
           split: option.splits sum.splits if_splits)

lemma code_pages_counters:
  "code_pages w d m ps v s = Return v' s' \<Longrightarrow>
     fetched v' + unchanged v' + failed v' = fetched v + unchanged v + failed v + length ps"
proof (induction ps arbitrary: v s)
  case Nil
  then show ?case by simp
next
  case (Cons p ps)
  then show ?case
    using code_page_counters [of w d m p v s] by (cases "code_page w d m p v s") auto
qed

lemma code_changelog_not_ok:
  assumes "http w changelogUrl = Response status body" and "\<not> response_ok status"
  shows "code_changelog w d m v s =
           Return v (emit (HttpGet changelogUrl) (emit (StdoutWrite (js ''Fetching changelog...'')) s))"
  unfolding code_changelog_def Let_def using assms by simp

lemmas code_eval = main_claude_code_def code_page_def code_changelog_def changelog_catch_def fetchDoc_def
  loadManifest_def existsSync_def readFile_def writeFile_def mkdir_def Date_toISOString_def emit_def
  manifest_files_at_def hash_equals_def hashContent_def response_ok_def assign_def
  ManifestEntry_def empty_manifest_def MANIFEST_FILE_def CODE_BASE_URL_def changelogUrl_def code_banner_def
  summary_def init_vars_def startsWith_def sample_world_def intro_page_def plain_body_def
  changelog_missing_def js_def Let_def

text \<open>
  Claim C2 at a failing input. When the changelog request is answered with a status
  outside 200 to 299, a run of the claude-code job that returns has counted its \<open>N\<close>
  pages and nothing for the changelog: the three counters add up to \<open>N\<close>, while the
  summary announces a total of \<open>N + 1\<close>.
\<close>

theorem changelog_not_counted:
  assumes "http w changelogUrl = Response status body" and "\<not> response_ok status"
    and "main_claude_code w pages d disk = Return v s"
  shows "fetched v + unchanged v + failed v = length pages \<and>
         last (events s) = ConsoleLog (js ''Total: '' @ decimal (length pages + 1))"
proof -
  let ?s0 = "\<lparr>events = code_banner w d, fs = disk, clk = 0\<rparr>"
  let ?pre = "if d then Return () ?s0 else mkdir w (RESOURCES_DIR w) ?s0"
  from assms(3) obtain s1 where pre: "?pre = Return () s1"
    unfolding main_claude_code_def Let_def by (cases ?pre) auto
  let ?m = "manifest_loaded CODE_BASE_URL w (fs s1)"
  let ?s2 = "s1\<lparr>events := events s1 @ loadManifest_events CODE_BASE_URL w (fs s1)\<rparr>"
  let ?save = "\<lambda>v s4. if d then Return () s4 else saveManifest w CODE_BASE_URL (newFiles v) s4"
  have run: "main_claude_code w pages d disk =
      await (code_pages w d ?m pages init_vars ?s2)
        (\<lambda>v s3. await (code_changelog w d ?m v s3)
           (\<lambda>v' s4. await (?save v' s4)
              (\<lambda>_ s5. Return v' (s5\<lparr>events := events s5 @ summary v' (length pages + 1)\<rparr>))))"
    unfolding main_claude_code_def Let_def pre by (simp add: loadManifest_eq)
  with assms(3) obtain v3 s3 where loop: "code_pages w d ?m pages init_vars ?s2 = Return v3 s3"
    by (cases "code_pages w d ?m pages init_vars ?s2") auto
  note cl = code_changelog_not_ok [OF assms(1,2), of d ?m v3 s3]
  let ?s4 = "emit (HttpGet changelogUrl) (emit (StdoutWrite (js ''Fetching changelog...'')) s3)"
  from run loop cl assms(3) obtain s5 where "?save v3 ?s4 = Return () s5"
    and fin: "v = v3" "s = s5\<lparr>events := events s5 @ summary v3 (length pages + 1)\<rparr>"
    by (cases "?save v3 ?s4") auto
  from code_pages_counters [OF loop] fin(1)
  have "fetched v + unchanged v + failed v = length pages" by (simp add: init_vars_def)
  moreover from fin(2) have "last (events s) = ConsoleLog (js ''Total: '' @ decimal (length pages + 1))"
    by (simp add: summary_def)
  ultimately show ?thesis by simp
qed

theorem changelog_not_counted_witness:
  "http changelog_missing changelogUrl = Response 404 None \<and> \<not> response_ok 404 \<and>
   returned (main_claude_code changelog_missing [intro_page] True Map.empty)
     = Some \<lparr>newFiles = [(js ''intro'',
                          ManifestEntry CODE_BASE_URL intro_page plain_body (js ''2026-01-01T00:00:00.000Z''))],
             fetched = 1, unchanged = 0, failed = 0\<rparr> \<and>
   last (events (final_state (main_claude_code changelog_missing [intro_page] True Map.empty)))
     = ConsoleLog (js ''Total: 2'')"
proof -
  have a: "http changelog_missing changelogUrl = Response 404 None"
    by (simp add: changelog_missing_def sample_world_def)
  have b: "\<not> response_ok 404" by (simp add: response_ok_def)
  have c: "returned (main_claude_code changelog_missing [intro_page] True Map.empty)
     = Some \<lparr>newFiles = [(js ''intro'',
                          ManifestEntry CODE_BASE_URL intro_page plain_body (js ''2026-01-01T00:00:00.000Z''))],
             fetched = 1, unchanged = 0, failed = 0\<rparr>"
    by (simp add: code_eval decimal.simps)
  then obtain v s where r: "main_claude_code changelog_missing [intro_page] True Map.empty = Return v s"
    by (cases "main_claude_code changelog_missing [intro_page] True Map.empty") auto
  have d: "js ''Total: '' @ decimal (length [intro_page] + 1) = js ''Total: 2''"
    by (simp add: decimal.simps js_def)
  from changelog_not_counted [OF a b r] a b c r d show ?thesis by simp
qed

end
